theory Spec2Isabelle
  imports Main
begin

section \<open>JavaScript values used by the Kin calculator\<close>

text \<open>
  The calculator exists twice in the repository: as a stand-alone script that exports
  \<open>calculateKin\<close> and prints a test calculation (called the script below), and
  inside the React cover component (called the cover below). Both are embedded here,
  each from its own text.

  A JavaScript string is a sequence of UTF-16 code units. All characters of the
  program's string constants lie in the Basic Multilingual Plane, so each character is
  one code unit, written here as its hexadecimal code point.

  The arguments \<open>year\<close>, \<open>month\<close> and \<open>day\<close> are modelled as mathematical
  integers. JavaScript numbers are IEEE doubles; integer arithmetic on them is exact
  below \<open>2^53\<close> in magnitude, and \<open>String\<close> prints an integer in plain decimal
  below \<open>10^21\<close>. Non-integral and non-finite arguments are outside the model.
\<close>

type_synonym jsstring = "nat list"

text \<open>A number that went through arithmetic with \<open>undefined\<close> is \<open>NaN\<close>.\<close>

datatype jsnum = Num int | NaN

datatype jsval = JNull | JUndefined | JNumber jsnum | JString jsstring

text \<open>Code units of a literal that consists of ASCII characters only.\<close>

definition ascii :: "string \<Rightarrow> jsstring" where
  "ascii s = map of_char s"

text \<open>
  Reading a property that an object does not have yields \<open>undefined\<close>
  (\<open>None\<close> in a table lookup); in arithmetic \<open>undefined\<close> converts to \<open>NaN\<close>.
\<close>

fun ToNumber :: "int option \<Rightarrow> jsnum" where
  "ToNumber None = NaN"
| "ToNumber (Some v) = Num v"

text \<open>
  The operand of \<open>!\<close> is falsy when it is \<open>undefined\<close> or the number zero, so
  \<open>!table[key]\<close> holds for a missing key and also for a key that maps to \<open>0\<close>.
\<close>

fun js_not :: "int option \<Rightarrow> bool" where
  "js_not None = True"
| "js_not (Some v) = (v = 0)"

fun num_add :: "jsnum \<Rightarrow> jsnum \<Rightarrow> jsnum" where
  "num_add (Num a) (Num b) = Num (a + b)"
| "num_add _ _ = NaN"

fun num_sub :: "jsnum \<Rightarrow> jsnum \<Rightarrow> jsnum" where
  "num_sub (Num a) (Num b) = Num (a - b)"
| "num_sub _ _ = NaN"

text \<open>Comparisons with \<open>NaN\<close> are false.\<close>

fun num_gt :: "jsnum \<Rightarrow> jsnum \<Rightarrow> bool" where
  "num_gt (Num a) (Num b) = (a > b)"
| "num_gt _ _ = False"

fun num_lt :: "jsnum \<Rightarrow> jsnum \<Rightarrow> bool" where
  "num_lt (Num a) (Num b) = (a < b)"
| "num_lt _ _ = False"

text \<open>
  The operator \<open>%\<close> is the remainder of truncating division: the result has the sign
  of the dividend. A zero divisor gives \<open>NaN\<close>.
\<close>

definition js_rem :: "int \<Rightarrow> int \<Rightarrow> int" where
  "js_rem a b = sgn a * (\<bar>a\<bar> mod \<bar>b\<bar>)"

fun num_rem :: "jsnum \<Rightarrow> jsnum \<Rightarrow> jsnum" where
  "num_rem (Num a) (Num b) = (if b = 0 then NaN else Num (js_rem a b))"
| "num_rem _ _ = NaN"

text \<open>
  Indexing an array: an index that is not an integer within the array's bounds names a
  property the array does not have.
\<close>

fun js_index :: "jsstring list \<Rightarrow> jsnum \<Rightarrow> jsval" where
  "js_index xs (Num i) = (if 0 \<le> i \<and> i < int (length xs) then JString (xs ! nat i) else JUndefined)"
| "js_index xs NaN = JUndefined"

text \<open>Decimal digits of a natural number, most significant first.\<close>

fun digits :: "nat \<Rightarrow> jsstring" where
  "digits n = (if n < 10 then [0x30 + n] else digits (n div 10) @ [0x30 + n mod 10])"

declare digits.simps [simp del]

text \<open>\<open>String(n)\<close> and the conversion inside a template literal.\<close>

fun num_ToString :: "jsnum \<Rightarrow> jsstring" where
  "num_ToString NaN = ascii ''NaN''"
| "num_ToString (Num i) = (if i < 0 then ascii ''-'' @ digits (nat (- i)) else digits (nat i))"

fun ToString :: "jsval \<Rightarrow> jsstring" where
  "ToString JNull = ascii ''null''"
| "ToString JUndefined = ascii ''undefined''"
| "ToString (JNumber n) = num_ToString n"
| "ToString (JString s) = s"

text \<open>\<open>s.padStart(n, c)\<close> for a one-character pad string \<open>c\<close>.\<close>

definition padStart :: "jsstring \<Rightarrow> nat \<Rightarrow> nat \<Rightarrow> jsstring" where
  "padStart s n c = replicate (n - length s) c @ s"

section \<open>The script\<close>

subsection \<open>Module-level tables\<close>

text \<open>
  The four tables are module-level \<open>const\<close> bindings of mutable objects. They form
  the global state that \<open>calculateKin\<close> runs in.
\<close>

record globals =
  monthConstants :: "int \<rightharpoonup> int"
  yearConstants :: "int \<rightharpoonup> int"
  sealNames :: "jsstring list"
  toneNames :: "jsstring list"

definition script_globals :: globals where
  "script_globals = \<lparr>
     monthConstants = map_of
       [(1, 0), (2, 31), (3, 59), (4, 90), (5, 120), (6, 151),
        (7, 181), (8, 212), (9, 243), (10, 13), (11, 44), (12, 74)],
     yearConstants = map_of
       [(2014, 62), (2015, 167), (2016, 12), (2017, 117), (2018, 222), (2019, 67),
        (2020, 172), (2021, 17), (2022, 122), (2023, 227), (2024, 72), (2025, 177),
        (2026, 22), (2027, 127), (2028, 232), (2029, 77), (2030, 182)],
     sealNames =
       [[0x7D05, 0x9F8D], [0x767D, 0x98A8], [0x85CD, 0x591C], [0x9EC3, 0x7A2E, 0x5B50],
        [0x7D05, 0x86C7], [0x767D, 0x4E16, 0x754C, 0x6A4B], [0x85CD, 0x624B],
        [0x9EC3, 0x661F, 0x661F], [0x7D05, 0x6708], [0x767D, 0x72D7],
        [0x85CD, 0x7334], [0x9EC3, 0x4EBA], [0x7D05, 0x5929, 0x884C, 0x8005],
        [0x767D, 0x5DEB, 0x5E2B], [0x85CD, 0x9DF9], [0x9EC3, 0x6230, 0x58EB],
        [0x7D05, 0x5730, 0x7403], [0x767D, 0x93E1], [0x85CD, 0x98A8, 0x66B4],
        [0x9EC3, 0x592A, 0x967D]],
     toneNames =
       [[0x78C1, 0x6027, 0x7684], [0x6708, 0x4EAE, 0x7684], [0x96FB, 0x529B, 0x7684],
        [0x81EA, 0x6211, 0x5B58, 0x5728, 0x7684], [0x8D85, 0x983B, 0x7684],
        [0x97FB, 0x5F8B, 0x7684], [0x5171, 0x632F, 0x7684],
        [0x9280, 0x6CB3, 0x661F, 0x7CFB, 0x7684], [0x592A, 0x967D, 0x7684],
        [0x884C, 0x661F, 0x7684], [0x5149, 0x8B5C, 0x7684], [0x6C34, 0x6676, 0x7684],
        [0x5B87, 0x5B99, 0x7684]] \<rparr>"

subsection \<open>isLeapYear\<close>

definition isLeapYear :: "int \<Rightarrow> bool" where
  "isLeapYear year \<longleftrightarrow>
     (js_rem year 4 = 0 \<and> js_rem year 100 \<noteq> 0) \<or> js_rem year 400 = 0"

subsection \<open>calculateKin\<close>

text \<open>
  The object \<open>calculateKin\<close> returns. The sentinel object has no \<open>sealNumber\<close>
  property; reading it yields \<open>undefined\<close>.
\<close>

record kinResult =
  kin :: jsval
  seal :: jsval
  tone :: jsval
  sealNumber :: jsval
  isHunabKu :: bool
  displayText :: jsstring

text \<open>\<open>throw new Error(message)\<close>.\<close>

datatype error = Error jsstring

text \<open>The two \<open>while\<close> loops that bring \<open>kin\<close> into the range 1 to 260.\<close>

function while_gt_260 :: "jsnum \<Rightarrow> jsnum" where
  "while_gt_260 k = (if num_gt k (Num 260) then while_gt_260 (num_sub k (Num 260)) else k)"
  by pat_completeness auto
termination
proof (relation "measure (\<lambda>k. case k of Num i \<Rightarrow> nat i | NaN \<Rightarrow> 0)")
  show "wf (measure (\<lambda>k. case k of Num i \<Rightarrow> nat i | NaN \<Rightarrow> 0))"
    by simp
next
  fix k
  assume "num_gt k (Num 260)"
  then show "(num_sub k (Num 260), k) \<in> measure (\<lambda>k. case k of Num i \<Rightarrow> nat i | NaN \<Rightarrow> 0)"
    by (cases k) auto
qed

declare while_gt_260.simps [simp del]

function while_lt_1 :: "jsnum \<Rightarrow> jsnum" where
  "while_lt_1 k = (if num_lt k (Num 1) then while_lt_1 (num_add k (Num 260)) else k)"
  by pat_completeness auto
termination
proof (relation "measure (\<lambda>k. case k of Num i \<Rightarrow> nat (1 - i) | NaN \<Rightarrow> 0)")
  show "wf (measure (\<lambda>k. case k of Num i \<Rightarrow> nat (1 - i) | NaN \<Rightarrow> 0))"
    by simp
next
  fix k
  assume "num_lt k (Num 1)"
  then show "(num_add k (Num 260), k) \<in> measure (\<lambda>k. case k of Num i \<Rightarrow> nat (1 - i) | NaN \<Rightarrow> 0)"
    by (cases k) auto
qed

declare while_lt_1.simps [simp del]

text \<open>
  The value of the variable \<open>kin\<close> when the loops are entered: the basic sum of
  the year constant, the month constant and the day, and then the leap-year rule.
\<close>

definition rawKin :: "int \<Rightarrow> int \<Rightarrow> int \<Rightarrow> globals \<Rightarrow> jsnum" where
  "rawKin year month day g =
     (let kin0 = num_add (num_add (ToNumber (yearConstants g year))
                                  (ToNumber (monthConstants g month))) (Num day)
      in if isLeapYear year \<and> (month > 2 \<or> (month = 2 \<and> day > 28))
         then num_add kin0 (Num 1) else kin0)"

text \<open>
  The function takes the global state and returns it with its result: either the
  thrown error or the returned object.
\<close>

definition calculateKin :: "int \<Rightarrow> int \<Rightarrow> int \<Rightarrow> globals \<Rightarrow> (error + kinResult) \<times> globals" where
  "calculateKin year month day g =
     (if month = 2 \<and> day = 29 then
        (Inr \<lparr>kin = JNull, seal = JNull, tone = JNull, sealNumber = JUndefined,
              isHunabKu = True, displayText = ascii ''Hunab Ku''\<rparr>, g)
      else if js_not (yearConstants g year) then
        (Inl (Error ([0x5E74, 0x4EFD, 0x20] @ num_ToString (Num year)
                     @ [0x20, 0x7684, 0x5E38, 0x6578, 0x5C1A, 0x672A, 0x5B9A, 0x7FA9])), g)
      else
        let kin' = while_lt_1 (while_gt_260 (rawKin year month day g));
            sealIndex = num_rem (num_sub kin' (Num 1)) (Num 20);
            seal' = js_index (sealNames g) sealIndex;
            toneIndex = num_rem (num_sub kin' (Num 1)) (Num 13);
            tone' = js_index (toneNames g) toneIndex;
            sealNumber' = num_add sealIndex (Num 1)
        in (Inr \<lparr>kin = JNumber kin', seal = seal', tone = tone',
                  sealNumber = JNumber sealNumber', isHunabKu = False,
                  displayText = ToString tone' @ ToString seal'\<rparr>, g))"

section \<open>The cover component\<close>

subsection \<open>Module-level tables\<close>

text \<open>
  The cover has its own copies of the tables. Its \<open>calculateKin\<close> also writes a
  warning to the console, so the messages written so far are part of the global state.
\<close>

record globals_cover =
  MONTH_CONSTANTS :: "int \<rightharpoonup> int"
  YEAR_CONSTANTS :: "int \<rightharpoonup> int"
  SEAL_NAMES :: "jsstring list"
  TONE_NAMES :: "jsstring list"
  console :: "jsstring list"

definition cover_globals :: globals_cover where
  "cover_globals = \<lparr>
     MONTH_CONSTANTS = map_of
       [(1, 0), (2, 31), (3, 59), (4, 90), (5, 120), (6, 151),
        (7, 181), (8, 212), (9, 243), (10, 13), (11, 44), (12, 74)],
     YEAR_CONSTANTS = map_of
       [(2014, 62), (2015, 167), (2016, 12), (2017, 117), (2018, 222), (2019, 67),
        (2020, 172), (2021, 17), (2022, 122), (2023, 227), (2024, 72), (2025, 177),
        (2026, 22), (2027, 127), (2028, 232), (2029, 77), (2030, 182), (2031, 27),
        (2032, 132), (2033, 237), (2034, 82), (2035, 187)],
     SEAL_NAMES =
       [[0x7D05, 0x9F8D], [0x767D, 0x98A8], [0x85CD, 0x591C], [0x9EC3, 0x7A2E, 0x5B50],
        [0x7D05, 0x86C7], [0x767D, 0x4E16, 0x754C, 0x6A4B], [0x85CD, 0x624B],
        [0x9EC3, 0x661F, 0x661F], [0x7D05, 0x6708], [0x767D, 0x72D7],
        [0x85CD, 0x7334], [0x9EC3, 0x4EBA], [0x7D05, 0x5929, 0x884C, 0x8005],
        [0x767D, 0x5DEB, 0x5E2B], [0x85CD, 0x9DF9], [0x9EC3, 0x6230, 0x58EB],
        [0x7D05, 0x5730, 0x7403], [0x767D, 0x93E1], [0x85CD, 0x98A8, 0x66B4],
        [0x9EC3, 0x592A, 0x967D]],
     TONE_NAMES =
       [[0x78C1, 0x6027, 0x7684], [0x6708, 0x4EAE, 0x7684], [0x96FB, 0x529B, 0x7684],
        [0x81EA, 0x6211, 0x5B58, 0x5728, 0x7684], [0x8D85, 0x983B, 0x7684],
        [0x97FB, 0x5F8B, 0x7684], [0x5171, 0x632F, 0x7684],
        [0x9280, 0x6CB3, 0x661F, 0x7CFB, 0x7684], [0x592A, 0x967D, 0x7684],
        [0x884C, 0x661F, 0x7684], [0x5149, 0x8B5C, 0x7684], [0x6C34, 0x6676, 0x7684],
        [0x5B87, 0x5B99, 0x7684]],
     console = [] \<rparr>"

subsection \<open>isLeapYear\<close>

definition isLeapYear_cover :: "int \<Rightarrow> bool" where
  "isLeapYear_cover year \<longleftrightarrow>
     (js_rem year 4 = 0 \<and> js_rem year 100 \<noteq> 0) \<or> js_rem year 400 = 0"

subsection \<open>calculateKin\<close>

text \<open>
  The cover's result objects carry one more property, \<open>sealImagePath\<close>. For an
  unsupported year the cover does not throw: it warns on the console and returns an
  object of its own. The basic sum, the leap-year rule and the two loops read as in
  the script, over the cover's own tables.
\<close>

record kinResult_cover = kinResult +
  sealImagePath :: jsval

definition rawKin_cover :: "int \<Rightarrow> int \<Rightarrow> int \<Rightarrow> globals_cover \<Rightarrow> jsnum" where
  "rawKin_cover year month day g =
     (let kin0 = num_add (num_add (ToNumber (YEAR_CONSTANTS g year))
                                  (ToNumber (MONTH_CONSTANTS g month))) (Num day)
      in if isLeapYear_cover year \<and> (month > 2 \<or> (month = 2 \<and> day > 28))
         then num_add kin0 (Num 1) else kin0)"

definition calculateKin_cover ::
  "int \<Rightarrow> int \<Rightarrow> int \<Rightarrow> globals_cover \<Rightarrow> kinResult_cover \<times> globals_cover" where
  "calculateKin_cover year month day g =
     (if month = 2 \<and> day = 29 then
        (\<lparr>kin = JNull, seal = JNull, tone = JNull, sealNumber = JUndefined,
          isHunabKu = True, displayText = ascii ''Hunab Ku'',
          sealImagePath = JString (ascii ''./images/hunab-ku-1.png'')\<rparr>, g)
      else if js_not (YEAR_CONSTANTS g year) then
        (\<lparr>kin = JNull, seal = JNull, tone = JNull, sealNumber = JUndefined,
          isHunabKu = False,
          displayText = [0x5E74, 0x4EFD, 0x6578, 0x64DA, 0x672A, 0x5B9A, 0x7FA9],
          sealImagePath = JNull\<rparr>,
         g\<lparr>console := console g @
             [[0x5E74, 0x4EFD, 0x20] @ num_ToString (Num year)
              @ [0x20, 0x7684, 0x5E38, 0x6578, 0x5C1A, 0x672A, 0x5B9A, 0x7FA9,
                 0xFF0C, 0x8ACB, 0x66F4, 0x65B0, 0x20]
              @ ascii ''YEAR_CONSTANTS'']\<rparr>)
      else
        let kin' = while_lt_1 (while_gt_260 (rawKin_cover year month day g));
            sealIndex = num_rem (num_sub kin' (Num 1)) (Num 20);
            seal' = js_index (SEAL_NAMES g) sealIndex;
            toneIndex = num_rem (num_sub kin' (Num 1)) (Num 13);
            tone' = js_index (TONE_NAMES g) toneIndex;
            sealNumber' = num_add sealIndex (Num 1)
        in (\<lparr>kin = JNumber kin', seal = seal', tone = tone',
             sealNumber = JNumber sealNumber', isHunabKu = False,
             displayText = ToString tone' @ ToString seal',
             sealImagePath = JString (ascii ''./images/''
               @ padStart (num_ToString sealNumber') 2 0x30 @ ascii ''.png'')\<rparr>, g))"

section \<open>The specification's normalisation\<close>

text \<open>
  The specification describes the result of the two loops by a closed formula,
  \<open>((raw - 1) mod 260) + 1\<close> with a non-negative modulo. It is written down here
  from the specification's words, to be compared with the loops. On the integers,
  \<open>mod\<close> with a positive divisor is never negative.
\<close>

definition spec_kin :: "int \<Rightarrow> int" where
  "spec_kin raw = (raw - 1) mod 260 + 1"

section \<open>Arithmetic of the loops\<close>

lemma while_gt_260_NaN: "while_gt_260 NaN = NaN"
  by (subst while_gt_260.simps) simp

lemma while_lt_1_NaN: "while_lt_1 NaN = NaN"
  by (subst while_lt_1.simps) simp

lemma mod_260_shift_down: "(k - 260 - 1) mod 260 = (k - 1) mod (260::int)"
proof -
  have "k - 260 - 1 = (k - 1) - 260" by simp
  then show ?thesis by (simp only: minus_mod_self2)
qed

lemma mod_260_shift_up: "(k + 260 - 1) mod 260 = (k - 1) mod (260::int)"
proof -
  have "k + 260 - 1 = (k - 1) + 260" by simp
  then show ?thesis by (simp only: mod_add_self2)
qed

lemma mod_260_id: "1 \<le> k \<Longrightarrow> k \<le> 260 \<Longrightarrow> (k - 1) mod 260 + 1 = (k::int)"
  by simp

lemma mod_260_range: "1 \<le> (k - 1) mod 260 + 1 \<and> (k - 1) mod 260 + 1 \<le> (260::int)"
proof -
  have "0 \<le> (k - 1) mod 260" by simp
  moreover have "(k - 1) mod 260 < 260" by simp
  ultimately show ?thesis by linarith
qed

lemma while_gt_260_Num:
  "while_gt_260 (Num k) = Num (if k > 260 then (k - 1) mod 260 + 1 else k)"
proof (induction "nat k" arbitrary: k rule: less_induct)
  case less
  show ?case
  proof (cases "k > 260")
    case True
    then have "nat (k - 260) < nat k" by simp
    then have IH: "while_gt_260 (Num (k - 260)) =
        Num (if k - 260 > 260 then (k - 260 - 1) mod 260 + 1 else k - 260)"
      by (rule less.hyps)
    have "while_gt_260 (Num k) = while_gt_260 (Num (k - 260))"
      using True by (subst while_gt_260.simps) simp
    also have "\<dots> = Num ((k - 1) mod 260 + 1)"
    proof (cases "k - 260 > 260")
      case True
      then show ?thesis unfolding IH by (simp only: if_True mod_260_shift_down)
    next
      case False
      have "(k - 260 - 1) mod 260 + 1 = k - 260"
        using \<open>k > 260\<close> False by (intro mod_260_id) simp_all
      then have "(k - 1) mod 260 + 1 = k - 260"
        by (simp only: mod_260_shift_down)
      then show ?thesis unfolding IH using False by simp
    qed
    finally show ?thesis using True by simp
  next
    case False
    then show ?thesis by (subst while_gt_260.simps) simp
  qed
qed

lemma while_lt_1_Num:
  "while_lt_1 (Num k) = Num (if k < 1 then (k - 1) mod 260 + 1 else k)"
proof (induction "nat (1 - k)" arbitrary: k rule: less_induct)
  case less
  show ?case
  proof (cases "k < 1")
    case True
    then have "nat (1 - (k + 260)) < nat (1 - k)" by simp
    then have IH: "while_lt_1 (Num (k + 260)) =
        Num (if k + 260 < 1 then (k + 260 - 1) mod 260 + 1 else k + 260)"
      by (rule less.hyps)
    have "while_lt_1 (Num k) = while_lt_1 (Num (k + 260))"
      using True by (subst while_lt_1.simps) simp
    also have "\<dots> = Num ((k - 1) mod 260 + 1)"
    proof (cases "k + 260 < 1")
      case True
      then show ?thesis unfolding IH by (simp only: if_True mod_260_shift_up)
    next
      case False
      have "(k + 260 - 1) mod 260 + 1 = k + 260"
        using \<open>k < 1\<close> False by (intro mod_260_id) simp_all
      then have "(k - 1) mod 260 + 1 = k + 260"
        by (simp only: mod_260_shift_up)
      then show ?thesis unfolding IH using False by simp
    qed
    finally show ?thesis using True by simp
  next
    case False
    then show ?thesis by (subst while_lt_1.simps) simp
  qed
qed

text \<open>The two loops together compute the specification's formula.\<close>

lemma loops_Num: "while_lt_1 (while_gt_260 (Num raw)) = Num (spec_kin raw)"
proof (cases "raw > 260")
  case True
  have "\<not> (raw - 1) mod 260 + 1 < 1" using mod_260_range [of raw] by linarith
  then show ?thesis using True by (simp add: while_gt_260_Num while_lt_1_Num spec_kin_def)
next
  case False
  show ?thesis
  proof (cases "raw < 1")
    case True
    with False show ?thesis by (simp add: while_gt_260_Num while_lt_1_Num spec_kin_def)
  next
    case False
    with \<open>\<not> raw > 260\<close> have "(raw - 1) mod 260 + 1 = raw" by (intro mod_260_id) simp_all
    with False \<open>\<not> raw > 260\<close> show ?thesis
      by (simp add: while_gt_260_Num while_lt_1_Num spec_kin_def)
  qed
qed

lemma loops_NaN: "while_lt_1 (while_gt_260 NaN) = NaN"
  by (simp add: while_gt_260_NaN while_lt_1_NaN)

lemma spec_kin_range: "1 \<le> spec_kin raw \<and> spec_kin raw \<le> 260"
  unfolding spec_kin_def by (rule mod_260_range)

lemma spec_kin_below_1: "spec_kin 0 = 260" "spec_kin (- 259) = 1" "spec_kin (- 260) = 260"
  by (simp_all add: spec_kin_def)

lemma js_rem_nonneg: "0 \<le> a \<Longrightarrow> 0 < b \<Longrightarrow> js_rem a b = a mod b"
  by (cases "a = 0") (simp_all add: js_rem_def)



lemma isLeapYear_cover_eq: "isLeapYear_cover year = isLeapYear year"
  by (simp add: isLeapYear_def isLeapYear_cover_def)

section \<open>The stages of calculateKin\<close>

lemma rawKin_Some:
  assumes "yearConstants g year = Some yc" and "monthConstants g month = Some mc"
  shows "rawKin year month day g =
     Num (yc + mc + day
          + (if isLeapYear year \<and> (month > 2 \<or> (month = 2 \<and> day > 28)) then 1 else 0))"
  using assms by (simp add: rawKin_def Let_def)

lemma rawKin_month_None:
  assumes "monthConstants g month = None"
  shows "rawKin year month day g = NaN"
  using assms by (cases "yearConstants g year") (simp_all add: rawKin_def)

lemma rawKin_cover_eq:
  assumes "YEAR_CONSTANTS gc year = yearConstants g year"
    and "MONTH_CONSTANTS gc month = monthConstants g month"
  shows "rawKin_cover year month day gc = rawKin year month day g"
  using assms by (simp add: rawKin_def rawKin_cover_def isLeapYear_cover_eq)

lemma calculateKin_sentinel:
  "calculateKin year 2 29 g =
     (Inr \<lparr>kin = JNull, seal = JNull, tone = JNull, sealNumber = JUndefined,
           isHunabKu = True, displayText = ascii ''Hunab Ku''\<rparr>, g)"
  by (simp add: calculateKin_def)

lemma calculateKin_unsupported:
  assumes "\<not> (month = 2 \<and> day = 29)" and "js_not (yearConstants g year)"
  shows "calculateKin year month day g =
     (Inl (Error ([0x5E74, 0x4EFD, 0x20] @ num_ToString (Num year)
                  @ [0x20, 0x7684, 0x5E38, 0x6578, 0x5C1A, 0x672A, 0x5B9A, 0x7FA9])), g)"
  using assms by (simp add: calculateKin_def)

lemma index_steps:
  "num_rem (num_sub (Num (spec_kin raw)) (Num 1)) (Num 20) = Num ((spec_kin raw - 1) mod 20)"
  "num_rem (num_sub (Num (spec_kin raw)) (Num 1)) (Num 13) = Num ((spec_kin raw - 1) mod 13)"
  using spec_kin_range [of raw] by (simp_all add: js_rem_nonneg)

lemma calculateKin_numeric:
  assumes "\<not> (month = 2 \<and> day = 29)" and "\<not> js_not (yearConstants g year)"
    and "rawKin year month day g = Num raw"
  shows "calculateKin year month day g =
     (Inr \<lparr>kin = JNumber (Num (spec_kin raw)),
           seal = js_index (sealNames g) (Num ((spec_kin raw - 1) mod 20)),
           tone = js_index (toneNames g) (Num ((spec_kin raw - 1) mod 13)),
           sealNumber = JNumber (Num ((spec_kin raw - 1) mod 20 + 1)), isHunabKu = False,
           displayText = ToString (js_index (toneNames g) (Num ((spec_kin raw - 1) mod 13)))
                       @ ToString (js_index (sealNames g) (Num ((spec_kin raw - 1) mod 20)))\<rparr>, g)"
proof -
  have c1: "(month = 2 \<and> day = 29) = False" using assms(1) by simp
  have c2: "js_not (yearConstants g year) = False" using assms(2) by simp
  have sn: "num_add (Num ((spec_kin raw - 1) mod 20)) (Num 1) = Num ((spec_kin raw - 1) mod 20 + 1)"
    by simp
  show ?thesis
    unfolding calculateKin_def Let_def
    by (simp only: c1 c2 if_False assms(3) loops_Num index_steps sn)
qed

lemma calculateKin_NaN:
  assumes "\<not> (month = 2 \<and> day = 29)" and "\<not> js_not (yearConstants g year)"
    and "rawKin year month day g = NaN"
  shows "calculateKin year month day g =
     (Inr \<lparr>kin = JNumber NaN, seal = JUndefined, tone = JUndefined,
           sealNumber = JNumber NaN, isHunabKu = False,
           displayText = ascii ''undefined'' @ ascii ''undefined''\<rparr>, g)"
proof -
  have c1: "(month = 2 \<and> day = 29) = False" using assms(1) by simp
  have c2: "js_not (yearConstants g year) = False" using assms(2) by simp
  show ?thesis
    unfolding calculateKin_def Let_def
    by (simp only: c1 c2 if_False assms(3) loops_NaN num_sub.simps num_rem.simps
        num_add.simps js_index.simps ToString.simps)
qed

lemma calculateKin_cover_sentinel:
  "calculateKin_cover year 2 29 g =
     (\<lparr>kin = JNull, seal = JNull, tone = JNull, sealNumber = JUndefined,
       isHunabKu = True, displayText = ascii ''Hunab Ku'',
       sealImagePath = JString (ascii ''./images/hunab-ku-1.png'')\<rparr>, g)"
  by (simp add: calculateKin_cover_def)

lemma calculateKin_cover_unsupported:
  assumes "\<not> (month = 2 \<and> day = 29)" and "js_not (YEAR_CONSTANTS g year)"
  shows "fst (calculateKin_cover year month day g) =
     \<lparr>kin = JNull, seal = JNull, tone = JNull, sealNumber = JUndefined,
      isHunabKu = False,
      displayText = [0x5E74, 0x4EFD, 0x6578, 0x64DA, 0x672A, 0x5B9A, 0x7FA9],
      sealImagePath = JNull\<rparr>"
  using assms by (simp add: calculateKin_cover_def)

lemma calculateKin_cover_numeric:
  assumes "\<not> (month = 2 \<and> day = 29)" and "\<not> js_not (YEAR_CONSTANTS g year)"
    and "rawKin_cover year month day g = Num raw"
  shows "calculateKin_cover year month day g =
     (\<lparr>kin = JNumber (Num (spec_kin raw)),
       seal = js_index (SEAL_NAMES g) (Num ((spec_kin raw - 1) mod 20)),
       tone = js_index (TONE_NAMES g) (Num ((spec_kin raw - 1) mod 13)),
       sealNumber = JNumber (Num ((spec_kin raw - 1) mod 20 + 1)), isHunabKu = False,
       displayText = ToString (js_index (TONE_NAMES g) (Num ((spec_kin raw - 1) mod 13)))
                   @ ToString (js_index (SEAL_NAMES g) (Num ((spec_kin raw - 1) mod 20))),
       sealImagePath = JString (ascii ''./images/''
         @ padStart (num_ToString (Num ((spec_kin raw - 1) mod 20 + 1))) 2 0x30
         @ ascii ''.png'')\<rparr>, g)"
proof -
  have c1: "(month = 2 \<and> day = 29) = False" using assms(1) by simp
  have c2: "js_not (YEAR_CONSTANTS g year) = False" using assms(2) by simp
  have sn: "num_add (Num ((spec_kin raw - 1) mod 20)) (Num 1) = Num ((spec_kin raw - 1) mod 20 + 1)"
    by simp
  show ?thesis
    unfolding calculateKin_cover_def Let_def
    by (simp only: c1 c2 if_False assms(3) loops_Num index_steps sn)
qed

lemma calculateKin_cover_NaN:
  assumes "\<not> (month = 2 \<and> day = 29)" and "\<not> js_not (YEAR_CONSTANTS g year)"
    and "rawKin_cover year month day g = NaN"
  shows "calculateKin_cover year month day g =
     (\<lparr>kin = JNumber NaN, seal = JUndefined, tone = JUndefined,
       sealNumber = JNumber NaN, isHunabKu = False,
       displayText = ascii ''undefined'' @ ascii ''undefined'',
       sealImagePath = JString (ascii ''./images/''
         @ padStart (ascii ''NaN'') 2 0x30 @ ascii ''.png'')\<rparr>, g)"
proof -
  have c1: "(month = 2 \<and> day = 29) = False" using assms(1) by simp
  have c2: "js_not (YEAR_CONSTANTS g year) = False" using assms(2) by simp
  show ?thesis
    unfolding calculateKin_cover_def Let_def
    by (simp only: c1 c2 if_False assms(3) loops_NaN num_sub.simps num_rem.simps
        num_add.simps js_index.simps ToString.simps num_ToString.simps)
qed

section \<open>The tables as loaded\<close>

lemma script_years:
  "yearConstants script_globals = map_of
       [(2014, 62), (2015, 167), (2016, 12), (2017, 117), (2018, 222), (2019, 67),
        (2020, 172), (2021, 17), (2022, 122), (2023, 227), (2024, 72), (2025, 177),
        (2026, 22), (2027, 127), (2028, 232), (2029, 77), (2030, 182)]"
  by (simp add: script_globals_def)

lemma script_months:
  "monthConstants script_globals = map_of
       [(1, 0), (2, 31), (3, 59), (4, 90), (5, 120), (6, 151),
        (7, 181), (8, 212), (9, 243), (10, 13), (11, 44), (12, 74)]"
  by (simp add: script_globals_def)

lemma cover_years:
  "YEAR_CONSTANTS cover_globals = map_of
       [(2014, 62), (2015, 167), (2016, 12), (2017, 117), (2018, 222), (2019, 67),
        (2020, 172), (2021, 17), (2022, 122), (2023, 227), (2024, 72), (2025, 177),
        (2026, 22), (2027, 127), (2028, 232), (2029, 77), (2030, 182), (2031, 27),
        (2032, 132), (2033, 237), (2034, 82), (2035, 187)]"
  by (simp add: cover_globals_def)

lemma cover_months:
  "MONTH_CONSTANTS cover_globals = map_of
       [(1, 0), (2, 31), (3, 59), (4, 90), (5, 120), (6, 151),
        (7, 181), (8, 212), (9, 243), (10, 13), (11, 44), (12, 74)]"
  by (simp add: cover_globals_def)

lemma months_agree: "MONTH_CONSTANTS cover_globals = monthConstants script_globals"
  by (simp only: script_months cover_months)

lemma names_agree:
  "SEAL_NAMES cover_globals = sealNames script_globals"
  "TONE_NAMES cover_globals = toneNames script_globals"
  by (simp_all add: script_globals_def cover_globals_def)

lemma names_length:
  "length (sealNames script_globals) = 20"
  "length (toneNames script_globals) = 13"
  by (simp_all add: script_globals_def)

lemma script_year_Some:
  "yearConstants script_globals year = Some yc \<Longrightarrow>
     2014 \<le> year \<and> year \<le> 2030 \<and> 12 \<le> yc \<and> yc \<le> 232"
  by (auto simp: script_years split: if_splits)

lemma cover_year_Some:
  "YEAR_CONSTANTS cover_globals year = Some yc \<Longrightarrow>
     2014 \<le> year \<and> year \<le> 2035 \<and> 12 \<le> yc \<and> yc \<le> 237"
  by (auto simp: cover_years split: if_splits)

lemma script_year_None:
  "year < 2014 \<or> 2030 < year \<Longrightarrow> yearConstants script_globals year = None"
  by (auto simp: script_years)

lemma cover_year_None:
  "year < 2014 \<or> 2035 < year \<Longrightarrow> YEAR_CONSTANTS cover_globals year = None"
  by (auto simp: cover_years)

lemma years_2014_2030:
  "2014 \<le> (y::int) \<Longrightarrow> y \<le> 2030 \<Longrightarrow>
     y \<in> {2014, 2015, 2016, 2017, 2018, 2019, 2020, 2021, 2022, 2023, 2024, 2025,
          2026, 2027, 2028, 2029, 2030}"
  by simp arith

lemma years_2031_2035:
  "2031 \<le> (y::int) \<Longrightarrow> y \<le> 2035 \<Longrightarrow> y \<in> {2031, 2032, 2033, 2034, 2035}"
  by simp arith

lemma months_1_12:
  "1 \<le> (m::int) \<Longrightarrow> m \<le> 12 \<Longrightarrow> m \<in> {1, 2, 3, 4, 5, 6, 7, 8, 9, 10, 11, 12}"
  by simp arith

lemma shared_year:
  assumes "2014 \<le> year" and "year \<le> 2030"
  shows "\<exists>yc. yearConstants script_globals year = Some yc
             \<and> YEAR_CONSTANTS cover_globals year = Some yc"
  using years_2014_2030 [OF assms] by (auto simp: script_years cover_years)

lemma extra_year:
  assumes "2031 \<le> year" and "year \<le> 2035"
  shows "\<exists>yc. YEAR_CONSTANTS cover_globals year = Some yc"
  using years_2031_2035 [OF assms] by (auto simp: cover_years)

lemma script_month_Some:
  assumes "1 \<le> month" and "month \<le> 12"
  shows "\<exists>mc. monthConstants script_globals month = Some mc"
  using months_1_12 [OF assms] by (auto simp: script_months)

lemma script_year_nonzero:
  "yearConstants script_globals year = Some yc \<Longrightarrow> \<not> js_not (yearConstants script_globals year)"
  using script_year_Some [of year yc] by simp

lemma cover_year_nonzero:
  "YEAR_CONSTANTS cover_globals year = Some yc \<Longrightarrow> \<not> js_not (YEAR_CONSTANTS cover_globals year)"
  using cover_year_Some [of year yc] by simp

section \<open>Which exit was taken\<close>

lemma calculateKin_Inl_iff:
  "(\<exists>e. fst (calculateKin year month day g) = Inl e)
     \<longleftrightarrow> \<not> (month = 2 \<and> day = 29) \<and> js_not (yearConstants g year)"
  by (simp add: calculateKin_def Let_def)

lemma calculateKin_normal_iff:
  "(\<exists>r. fst (calculateKin year month day g) = Inr r \<and> \<not> isHunabKu r)
     \<longleftrightarrow> \<not> (month = 2 \<and> day = 29) \<and> \<not> js_not (yearConstants g year)"
  by (simp add: calculateKin_def Let_def)

lemma calculateKin_cover_null_iff:
  "kin (fst (calculateKin_cover year month day g)) = JNull
     \<and> \<not> isHunabKu (fst (calculateKin_cover year month day g))
     \<longleftrightarrow> \<not> (month = 2 \<and> day = 29) \<and> js_not (YEAR_CONSTANTS g year)"
  by (simp add: calculateKin_cover_def Let_def)

lemma calculateKin_cover_normal_iff:
  "kin (fst (calculateKin_cover year month day g)) \<noteq> JNull
     \<longleftrightarrow> \<not> (month = 2 \<and> day = 29) \<and> \<not> js_not (YEAR_CONSTANTS g year)"
  by (simp add: calculateKin_cover_def Let_def)

lemma script_js_not_iff:
  "js_not (yearConstants script_globals year) \<longleftrightarrow> yearConstants script_globals year = None"
  using script_year_Some [of year] by (cases "yearConstants script_globals year") auto

lemma cover_js_not_iff:
  "js_not (YEAR_CONSTANTS cover_globals year) \<longleftrightarrow> YEAR_CONSTANTS cover_globals year = None"
  using cover_year_Some [of year] by (cases "YEAR_CONSTANTS cover_globals year") auto

section \<open>The kin of a date in the tables\<close>

lemma script_kin_of_raw:
  assumes "\<not> (month = 2 \<and> day = 29)"
    and "yearConstants script_globals year = Some yc"
    and "monthConstants script_globals month = Some mc"
  defines "raw \<equiv> yc + mc + day
      + (if isLeapYear year \<and> (month > 2 \<or> (month = 2 \<and> day > 28)) then 1 else 0)"
  shows "rawKin year month day script_globals = Num raw"
    and "\<exists>r. fst (calculateKin year month day script_globals) = Inr r
             \<and> kin r = JNumber (Num (spec_kin raw))"
proof -
  show raw: "rawKin year month day script_globals = Num raw"
    unfolding raw_def using assms(2,3) by (rule rawKin_Some)
  show "\<exists>r. fst (calculateKin year month day script_globals) = Inr r
             \<and> kin r = JNumber (Num (spec_kin raw))"
    using calculateKin_numeric [OF assms(1) script_year_nonzero [OF assms(2)] raw]
    by simp
qed

lemma cover_kin_of_raw:
  assumes "\<not> (month = 2 \<and> day = 29)"
    and "YEAR_CONSTANTS cover_globals year = Some yc"
    and "MONTH_CONSTANTS cover_globals month = Some mc"
  defines "raw \<equiv> yc + mc + day
      + (if isLeapYear_cover year \<and> (month > 2 \<or> (month = 2 \<and> day > 28)) then 1 else 0)"
  shows "rawKin_cover year month day cover_globals = Num raw"
    and "kin (fst (calculateKin_cover year month day cover_globals)) = JNumber (Num (spec_kin raw))"
proof -
  show raw: "rawKin_cover year month day cover_globals = Num raw"
    unfolding raw_def using assms(2,3) by (simp add: rawKin_cover_def Let_def)
  show "kin (fst (calculateKin_cover year month day cover_globals)) = JNumber (Num (spec_kin raw))"
    using calculateKin_cover_numeric [OF assms(1) cover_year_nonzero [OF assms(2)] raw]
    by simp
qed

lemma spec_kin_260: "spec_kin 260 = 260"
  by (simp add: spec_kin_def)

lemma spec_kin_261: "spec_kin 261 = 1"
  by (simp add: spec_kin_def)

lemma normal_result_shape:
  assumes "fst (calculateKin year month day g) = Inr r" and "\<not> isHunabKu r"
  shows "\<exists>n. n = while_lt_1 (while_gt_260 (rawKin year month day g))
     \<and> kin r = JNumber n
     \<and> seal r = js_index (sealNames g) (num_rem (num_sub n (Num 1)) (Num 20))
     \<and> tone r = js_index (toneNames g) (num_rem (num_sub n (Num 1)) (Num 13))
     \<and> sealNumber r = JNumber (num_add (num_rem (num_sub n (Num 1)) (Num 20)) (Num 1))
     \<and> displayText r = ToString (tone r) @ ToString (seal r)"
  using assms by (auto simp: calculateKin_def Let_def split: if_splits)

lemma loops_result_range:
  assumes "while_lt_1 (while_gt_260 n) = Num k"
  shows "1 \<le> k \<and> k \<le> 260"
proof (cases n)
  case (Num raw)
  with assms have "k = spec_kin raw" by (simp add: loops_Num)
  then show ?thesis using spec_kin_range [of raw] by simp
next
  case NaN
  with assms show ?thesis by (simp add: loops_NaN)
qed

section \<open>Two dates evaluated\<close>

lemma not_leap_2026: "\<not> isLeapYear 2026"
  by (simp add: isLeapYear_def js_rem_def)

lemma not_leap_2021: "\<not> isLeapYear 2021"
  by (simp add: isLeapYear_def js_rem_def)

lemma spec_kin_28: "spec_kin 28 = 28"
  by (simp add: spec_kin_def)

lemma script_names_at_28:
  "js_index (sealNames script_globals) (Num 7) = JString [0x9EC3, 0x661F, 0x661F]"
  "js_index (toneNames script_globals) (Num 1) = JString [0x6708, 0x4EAE, 0x7684]"
  by (simp_all add: script_globals_def)

lemma rawKin_2026_1_6: "rawKin 2026 1 6 script_globals = Num 28"
proof -
  have "yearConstants script_globals 2026 = Some 22" by (simp add: script_years)
  moreover have "monthConstants script_globals 1 = Some 0" by (simp add: script_months)
  ultimately show ?thesis
    using rawKin_Some [of script_globals 2026 22 1 0 6] by (simp add: not_leap_2026)
qed

lemma rawKin_2021_1_11: "rawKin 2021 1 11 script_globals = Num 28"
proof -
  have "yearConstants script_globals 2021 = Some 17" by (simp add: script_years)
  moreover have "monthConstants script_globals 1 = Some 0" by (simp add: script_months)
  ultimately show ?thesis
    using rawKin_Some [of script_globals 2021 17 1 0 11] by (simp add: not_leap_2021)
qed

lemma script_kin_28:
  assumes "\<not> (month = 2 \<and> day = 29)"
    and "yearConstants script_globals year = Some yc"
    and "rawKin year month day script_globals = Num 28"
  shows "calculateKin year month day script_globals =
     (Inr \<lparr>kin = JNumber (Num 28), seal = JString [0x9EC3, 0x661F, 0x661F],
           tone = JString [0x6708, 0x4EAE, 0x7684], sealNumber = JNumber (Num 8),
           isHunabKu = False,
           displayText = [0x6708, 0x4EAE, 0x7684, 0x9EC3, 0x661F, 0x661F]\<rparr>, script_globals)"
  using calculateKin_numeric [OF assms(1) script_year_nonzero [OF assms(2)] assms(3)]
  by (simp add: spec_kin_28 script_names_at_28 del: js_index.simps)

lemma script_2026_1_6:
  "calculateKin 2026 1 6 script_globals =
     (Inr \<lparr>kin = JNumber (Num 28), seal = JString [0x9EC3, 0x661F, 0x661F],
           tone = JString [0x6708, 0x4EAE, 0x7684], sealNumber = JNumber (Num 8),
           isHunabKu = False,
           displayText = [0x6708, 0x4EAE, 0x7684, 0x9EC3, 0x661F, 0x661F]\<rparr>, script_globals)"
proof (rule script_kin_28)
  show "\<not> ((1::int) = 2 \<and> (6::int) = 29)" by simp
  show "yearConstants script_globals 2026 = Some 22" by (simp add: script_years)
  show "rawKin 2026 1 6 script_globals = Num 28" by (rule rawKin_2026_1_6)
qed

lemma script_2021_1_11:
  "calculateKin 2021 1 11 script_globals =
     (Inr \<lparr>kin = JNumber (Num 28), seal = JString [0x9EC3, 0x661F, 0x661F],
           tone = JString [0x6708, 0x4EAE, 0x7684], sealNumber = JNumber (Num 8),
           isHunabKu = False,
           displayText = [0x6708, 0x4EAE, 0x7684, 0x9EC3, 0x661F, 0x661F]\<rparr>, script_globals)"
proof (rule script_kin_28)
  show "\<not> ((1::int) = 2 \<and> (11::int) = 29)" by simp
  show "yearConstants script_globals 2021 = Some 17" by (simp add: script_years)
  show "rawKin 2021 1 11 script_globals = Num 28" by (rule rawKin_2021_1_11)
qed

section \<open>Properties of the calculator\<close>

text \<open>
  Claim C1. For a year listed in the year table, a month from 1 to 12 and a day from 1
  to 31 other than February 29, both copies of \<open>calculateKin\<close> return the kin
  \<open>((raw - 1) mod 260) + 1\<close>, where \<open>raw\<close> is the year constant plus the month
  constant plus the day plus the leap adjustment. The kin lies between 1 and 260; a raw
  sum of 260 gives kin 260 and a raw sum of 261 gives kin 1.
\<close>

theorem calculateKin_kin_wraps_raw_sum:
  fixes year month day :: int
  assumes "1 \<le> month" and "month \<le> 12" and "1 \<le> day" and "day \<le> 31"
    and "(month, day) \<noteq> (2, 29)"
  shows
    "(\<forall>yc. yearConstants script_globals year = Some yc \<longrightarrow>
        (\<exists>mc raw r. monthConstants script_globals month = Some mc
           \<and> raw = yc + mc + day
               + (if isLeapYear year \<and> (month > 2 \<or> (month = 2 \<and> day > 28)) then 1 else 0)
           \<and> rawKin year month day script_globals = Num raw
           \<and> fst (calculateKin year month day script_globals) = Inr r
           \<and> kin r = JNumber (Num (spec_kin raw))
           \<and> 1 \<le> spec_kin raw \<and> spec_kin raw \<le> 260
           \<and> (raw = 260 \<longrightarrow> kin r = JNumber (Num 260))
           \<and> (raw = 261 \<longrightarrow> kin r = JNumber (Num 1))))
   \<and> (\<forall>yc. YEAR_CONSTANTS cover_globals year = Some yc \<longrightarrow>
        (\<exists>mc raw r. MONTH_CONSTANTS cover_globals month = Some mc
           \<and> raw = yc + mc + day
               + (if isLeapYear_cover year \<and> (month > 2 \<or> (month = 2 \<and> day > 28)) then 1 else 0)
           \<and> rawKin_cover year month day cover_globals = Num raw
           \<and> fst (calculateKin_cover year month day cover_globals) = r
           \<and> kin r = JNumber (Num (spec_kin raw))
           \<and> 1 \<le> spec_kin raw \<and> spec_kin raw \<le> 260
           \<and> (raw = 260 \<longrightarrow> kin r = JNumber (Num 260))
           \<and> (raw = 261 \<longrightarrow> kin r = JNumber (Num 1))))"
proof -
  have nf: "\<not> (month = 2 \<and> day = 29)" using assms(5) by simp
  obtain mc where mc: "monthConstants script_globals month = Some mc"
    using script_month_Some [OF assms(1,2)] by blast
  have mc': "MONTH_CONSTANTS cover_globals month = Some mc"
    using mc by (simp only: months_agree)
  show ?thesis
  proof (intro conjI allI impI)
    fix yc
    assume yc: "yearConstants script_globals year = Some yc"
    let ?raw = "yc + mc + day
      + (if isLeapYear year \<and> (month > 2 \<or> (month = 2 \<and> day > 28)) then 1 else 0)"
    obtain r where r: "fst (calculateKin year month day script_globals) = Inr r"
      "kin r = JNumber (Num (spec_kin ?raw))"
      using script_kin_of_raw(2) [OF nf yc mc] by blast
    have "?raw = 260 \<longrightarrow> kin r = JNumber (Num 260)"
      using r(2) spec_kin_260 by simp
    moreover have "?raw = 261 \<longrightarrow> kin r = JNumber (Num 1)"
      using r(2) spec_kin_261 by simp
    ultimately show "\<exists>mc raw r. monthConstants script_globals month = Some mc
           \<and> raw = yc + mc + day
               + (if isLeapYear year \<and> (month > 2 \<or> (month = 2 \<and> day > 28)) then 1 else 0)
           \<and> rawKin year month day script_globals = Num raw
           \<and> fst (calculateKin year month day script_globals) = Inr r
           \<and> kin r = JNumber (Num (spec_kin raw))
           \<and> 1 \<le> spec_kin raw \<and> spec_kin raw \<le> 260
           \<and> (raw = 260 \<longrightarrow> kin r = JNumber (Num 260))
           \<and> (raw = 261 \<longrightarrow> kin r = JNumber (Num 1))"
      using mc r script_kin_of_raw(1) [OF nf yc mc] spec_kin_range [of ?raw] by blast
  next
    fix yc
    assume yc: "YEAR_CONSTANTS cover_globals year = Some yc"
    let ?raw = "yc + mc + day
      + (if isLeapYear_cover year \<and> (month > 2 \<or> (month = 2 \<and> day > 28)) then 1 else 0)"
    let ?r = "fst (calculateKin_cover year month day cover_globals)"
    have r: "kin ?r = JNumber (Num (spec_kin ?raw))"
      using cover_kin_of_raw(2) [OF nf yc mc'] .
    have "?raw = 260 \<longrightarrow> kin ?r = JNumber (Num 260)"
      using r spec_kin_260 by simp
    moreover have "?raw = 261 \<longrightarrow> kin ?r = JNumber (Num 1)"
      using r spec_kin_261 by simp
    ultimately show "\<exists>mc raw r. MONTH_CONSTANTS cover_globals month = Some mc
           \<and> raw = yc + mc + day
               + (if isLeapYear_cover year \<and> (month > 2 \<or> (month = 2 \<and> day > 28)) then 1 else 0)
           \<and> rawKin_cover year month day cover_globals = Num raw
           \<and> fst (calculateKin_cover year month day cover_globals) = r
           \<and> kin r = JNumber (Num (spec_kin raw))
           \<and> 1 \<le> spec_kin raw \<and> spec_kin raw \<le> 260
           \<and> (raw = 260 \<longrightarrow> kin r = JNumber (Num 260))
           \<and> (raw = 261 \<longrightarrow> kin r = JNumber (Num 1))"
      using mc' r cover_kin_of_raw(1) [OF nf yc mc'] spec_kin_range [of ?raw] by blast
  qed
qed

theorem calculateKin_kin_wraps_raw_sum_witness:
  "(1::int) \<le> 2 \<and> (2::int) \<le> 12 \<and> (1::int) \<le> 7 \<and> (7::int) \<le> 31 \<and> (8::int) \<le> 31
   \<and> ((2::int), (7::int)) \<noteq> (2, 29) \<and> ((2::int), (8::int)) \<noteq> (2, 29)
   \<and> yearConstants script_globals 2018 = Some 222
   \<and> YEAR_CONSTANTS cover_globals 2018 = Some 222
   \<and> rawKin 2018 2 7 script_globals = Num 260
   \<and> (\<exists>r. fst (calculateKin 2018 2 7 script_globals) = Inr r \<and> kin r = JNumber (Num 260))
   \<and> rawKin 2018 2 8 script_globals = Num 261
   \<and> (\<exists>r. fst (calculateKin 2018 2 8 script_globals) = Inr r \<and> kin r = JNumber (Num 1))
   \<and> rawKin_cover 2018 2 7 cover_globals = Num 260
   \<and> kin (fst (calculateKin_cover 2018 2 7 cover_globals)) = JNumber (Num 260)
   \<and> rawKin_cover 2018 2 8 cover_globals = Num 261
   \<and> kin (fst (calculateKin_cover 2018 2 8 cover_globals)) = JNumber (Num 1)"
proof -
  have y: "yearConstants script_globals 2018 = Some 222"
    by (simp add: script_years)
  have y': "YEAR_CONSTANTS cover_globals 2018 = Some 222"
    by (simp add: cover_years)
  have m: "monthConstants script_globals 2 = Some mc \<longleftrightarrow> mc = 31" for mc
    by (auto simp: script_months)
  have m': "MONTH_CONSTANTS cover_globals 2 = Some mc \<longleftrightarrow> mc = 31" for mc
    by (auto simp: cover_months)
  have T7: "(1::int) \<le> 2" "(2::int) \<le> 12" "(1::int) \<le> 7" "(7::int) \<le> 31"
    "((2::int), (7::int)) \<noteq> (2, 29)"
    by simp_all
  have T8: "(1::int) \<le> 2" "(2::int) \<le> 12" "(1::int) \<le> 8" "(8::int) \<le> 31"
    "((2::int), (8::int)) \<noteq> (2, 29)"
    by simp_all
  note i7 = calculateKin_kin_wraps_raw_sum [where year = 2018 and month = 2 and day = 7, OF T7]
  note i8 = calculateKin_kin_wraps_raw_sum [where year = 2018 and month = 2 and day = 8, OF T8]
  have s7: "rawKin 2018 2 7 script_globals = Num 260
      \<and> (\<exists>r. fst (calculateKin 2018 2 7 script_globals) = Inr r \<and> kin r = JNumber (Num 260))"
    using i7 [THEN conjunct1, rule_format, OF y] by (auto simp: m)
  have s8: "rawKin 2018 2 8 script_globals = Num 261
      \<and> (\<exists>r. fst (calculateKin 2018 2 8 script_globals) = Inr r \<and> kin r = JNumber (Num 1))"
    using i8 [THEN conjunct1, rule_format, OF y] by (auto simp: m)
  have c7: "rawKin_cover 2018 2 7 cover_globals = Num 260
      \<and> kin (fst (calculateKin_cover 2018 2 7 cover_globals)) = JNumber (Num 260)"
    using i7 [THEN conjunct2, rule_format, OF y'] by (auto simp: m')
  have c8: "rawKin_cover 2018 2 8 cover_globals = Num 261
      \<and> kin (fst (calculateKin_cover 2018 2 8 cover_globals)) = JNumber (Num 1)"
    using i8 [THEN conjunct2, rule_format, OF y'] by (auto simp: m')
  show ?thesis using T7 T8 y y' s7 s8 c7 c8 by blast
qed

text \<open>
  Claim C2. For every year, whatever the year table holds and whether or not the year
  is a leap year, \<open>calculateKin(year, 2, 29)\<close> returns the Hunab Ku sentinel in both
  copies: \<open>isHunabKu\<close> is true, \<open>kin\<close>, \<open>seal\<close> and \<open>tone\<close> are \<open>null\<close>,
  and nothing is computed or changed on the way.
\<close>

theorem february_29_is_hunab_ku:
  "calculateKin year 2 29 g =
     (Inr \<lparr>kin = JNull, seal = JNull, tone = JNull, sealNumber = JUndefined,
           isHunabKu = True, displayText = ascii ''Hunab Ku''\<rparr>, g)
   \<and> calculateKin_cover year 2 29 gc =
     (\<lparr>kin = JNull, seal = JNull, tone = JNull, sealNumber = JUndefined,
       isHunabKu = True, displayText = ascii ''Hunab Ku'',
       sealImagePath = JString (ascii ''./images/hunab-ku-1.png'')\<rparr>, gc)"
  by (simp only: calculateKin_sentinel calculateKin_cover_sentinel)

theorem february_29_is_hunab_ku_witness:
  "fst (calculateKin 2024 2 29 script_globals) =
     Inr \<lparr>kin = JNull, seal = JNull, tone = JNull, sealNumber = JUndefined,
          isHunabKu = True, displayText = [0x48, 0x75, 0x6E, 0x61, 0x62, 0x20, 0x4B, 0x75]\<rparr>
   \<and> fst (calculateKin 1899 2 29 script_globals) =
     Inr \<lparr>kin = JNull, seal = JNull, tone = JNull, sealNumber = JUndefined,
          isHunabKu = True, displayText = [0x48, 0x75, 0x6E, 0x61, 0x62, 0x20, 0x4B, 0x75]\<rparr>
   \<and> isHunabKu (fst (calculateKin_cover 2024 2 29 cover_globals))
   \<and> kin (fst (calculateKin_cover 2024 2 29 cover_globals)) = JNull
   \<and> isHunabKu (fst (calculateKin_cover 1899 2 29 cover_globals))
   \<and> kin (fst (calculateKin_cover 1899 2 29 cover_globals)) = JNull
   \<and> snd (calculateKin_cover 1899 2 29 cover_globals) = cover_globals"
  using february_29_is_hunab_ku [where year = 2024 and g = script_globals and gc = cover_globals]
    february_29_is_hunab_ku [where year = 1899 and g = script_globals and gc = cover_globals]
  by (simp add: ascii_def)

text \<open>
  Claim C3. For a date other than February 29 whose year has no entry in the year
  table, \<open>calculateKin\<close> signals an unsupported year and returns no numeric kin: the
  script throws an error, the cover returns an object with \<open>kin\<close> \<open>null\<close> and
  \<open>isHunabKu\<close> false. The signal is distinguishable from every other outcome: no
  input with a listed year, and no February 29, makes the script throw or makes the
  cover return an object with \<open>kin\<close> \<open>null\<close> and \<open>isHunabKu\<close> false.
\<close>

theorem unsupported_year_is_signalled:
  fixes year month day year' month' day' :: int
  assumes "(month, day) \<noteq> (2, 29)"
  shows
    "(yearConstants script_globals year = None \<longrightarrow>
        fst (calculateKin year month day script_globals) =
          Inl (Error ([0x5E74, 0x4EFD, 0x20] @ num_ToString (Num year)
                      @ [0x20, 0x7684, 0x5E38, 0x6578, 0x5C1A, 0x672A, 0x5B9A, 0x7FA9])))
   \<and> (YEAR_CONSTANTS cover_globals year = None \<longrightarrow>
        fst (calculateKin_cover year month day cover_globals) =
          \<lparr>kin = JNull, seal = JNull, tone = JNull, sealNumber = JUndefined,
           isHunabKu = False,
           displayText = [0x5E74, 0x4EFD, 0x6578, 0x64DA, 0x672A, 0x5B9A, 0x7FA9],
           sealImagePath = JNull\<rparr>)
   \<and> ((\<exists>e. fst (calculateKin year' month' day' script_globals) = Inl e) \<longrightarrow>
        yearConstants script_globals year' = None \<and> (month', day') \<noteq> (2, 29))
   \<and> (kin (fst (calculateKin_cover year' month' day' cover_globals)) = JNull
        \<and> \<not> isHunabKu (fst (calculateKin_cover year' month' day' cover_globals)) \<longrightarrow>
        YEAR_CONSTANTS cover_globals year' = None \<and> (month', day') \<noteq> (2, 29))"
proof -
  have nf: "\<not> (month = 2 \<and> day = 29)" using assms by simp
  have a: "yearConstants script_globals year = None \<longrightarrow>
        fst (calculateKin year month day script_globals) =
          Inl (Error ([0x5E74, 0x4EFD, 0x20] @ num_ToString (Num year)
                      @ [0x20, 0x7684, 0x5E38, 0x6578, 0x5C1A, 0x672A, 0x5B9A, 0x7FA9]))"
    using calculateKin_unsupported [OF nf, of script_globals year] by simp
  have b: "YEAR_CONSTANTS cover_globals year = None \<longrightarrow>
        fst (calculateKin_cover year month day cover_globals) =
          \<lparr>kin = JNull, seal = JNull, tone = JNull, sealNumber = JUndefined,
           isHunabKu = False,
           displayText = [0x5E74, 0x4EFD, 0x6578, 0x64DA, 0x672A, 0x5B9A, 0x7FA9],
           sealImagePath = JNull\<rparr>"
    using calculateKin_cover_unsupported [OF nf, of cover_globals year] by simp
  have c: "(\<exists>e. fst (calculateKin year' month' day' script_globals) = Inl e) \<longrightarrow>
        yearConstants script_globals year' = None \<and> (month', day') \<noteq> (2, 29)"
    by (simp only: calculateKin_Inl_iff script_js_not_iff) simp
  have d: "kin (fst (calculateKin_cover year' month' day' cover_globals)) = JNull
        \<and> \<not> isHunabKu (fst (calculateKin_cover year' month' day' cover_globals)) \<longrightarrow>
        YEAR_CONSTANTS cover_globals year' = None \<and> (month', day') \<noteq> (2, 29)"
    by (simp only: calculateKin_cover_null_iff cover_js_not_iff) simp
  from a b c d show ?thesis by (intro conjI)
qed

lemma digits_1899: "digits 1899 = [0x31, 0x38, 0x39, 0x39]"
  by (simp add: digits.simps)

theorem unsupported_year_is_signalled_witness:
  "((1::int), (1::int)) \<noteq> (2, 29)
   \<and> yearConstants script_globals 1899 = None
   \<and> YEAR_CONSTANTS cover_globals 1899 = None
   \<and> fst (calculateKin 1899 1 1 script_globals) =
       Inl (Error [0x5E74, 0x4EFD, 0x20, 0x31, 0x38, 0x39, 0x39,
                   0x20, 0x7684, 0x5E38, 0x6578, 0x5C1A, 0x672A, 0x5B9A, 0x7FA9])
   \<and> kin (fst (calculateKin_cover 1899 1 1 cover_globals)) = JNull
   \<and> \<not> isHunabKu (fst (calculateKin_cover 1899 1 1 cover_globals))"
proof -
  have T: "((1::int), (1::int)) \<noteq> (2, 29)" by simp
  have y: "yearConstants script_globals 1899 = None" by (simp add: script_year_None)
  have y': "YEAR_CONSTANTS cover_globals 1899 = None" by (simp add: cover_year_None)
  note inst = unsupported_year_is_signalled
    [where year = 1899 and month = 1 and day = 1 and year' = 1899 and month' = 1 and day' = 1, OF T]
  have s: "fst (calculateKin 1899 1 1 script_globals) =
       Inl (Error [0x5E74, 0x4EFD, 0x20, 0x31, 0x38, 0x39, 0x39,
                   0x20, 0x7684, 0x5E38, 0x6578, 0x5C1A, 0x672A, 0x5B9A, 0x7FA9])"
    using inst [THEN conjunct1, rule_format, OF y] by (simp add: digits_1899)
  have c: "kin (fst (calculateKin_cover 1899 1 1 cover_globals)) = JNull
      \<and> \<not> isHunabKu (fst (calculateKin_cover 1899 1 1 cover_globals))"
    using inst [THEN conjunct2, THEN conjunct1, rule_format, OF y'] by simp
  show ?thesis using T y y' s c by blast
qed





lemma script_name_at:
  assumes "1 \<le> k" and "k \<le> 260"
  shows "js_index (sealNames script_globals) (num_rem (num_sub (Num k) (Num 1)) (Num 20))
           = JString (sealNames script_globals ! nat ((k - 1) mod 20))"
    and "js_index (toneNames script_globals) (num_rem (num_sub (Num k) (Num 1)) (Num 13))
           = JString (toneNames script_globals ! nat ((k - 1) mod 13))"
proof -
  have nonneg: "0 \<le> k - 1" using assms(1) by simp
  have r20: "js_rem (k - 1) 20 = (k - 1) mod 20" using nonneg by (simp add: js_rem_nonneg)
  have r13: "js_rem (k - 1) 13 = (k - 1) mod 13" using nonneg by (simp add: js_rem_nonneg)
  have b20: "0 \<le> (k - 1) mod 20" "(k - 1) mod 20 < 20" by simp_all
  have b13: "0 \<le> (k - 1) mod 13" "(k - 1) mod 13 < 13" by simp_all
  show "js_index (sealNames script_globals) (num_rem (num_sub (Num k) (Num 1)) (Num 20))
           = JString (sealNames script_globals ! nat ((k - 1) mod 20))"
    using b20 by (simp add: r20 names_length)
  show "js_index (toneNames script_globals) (num_rem (num_sub (Num k) (Num 1)) (Num 13))
           = JString (toneNames script_globals ! nat ((k - 1) mod 13))"
    using b13 by (simp add: r13 names_length)
qed

text \<open>
  Claim C5. For every result of the script's \<open>calculateKin\<close> that is neither the
  sentinel nor an error, the seal is the entry of the seal table at index
  \<open>(kin - 1) mod 20\<close>, the tone is the entry of the tone table at index
  \<open>(kin - 1) mod 13\<close>, and the display text is the tone followed by the seal. A
  numeric kin lies between 1 and 260, so both entries exist. Two inputs that produce
  the same kin produce the same seal and the same tone.
\<close>

theorem seal_and_tone_follow_kin:
  assumes "fst (calculateKin year month day script_globals) = Inr r"
    and "\<not> isHunabKu r"
  shows
    "(\<exists>n. kin r = JNumber n
        \<and> seal r = js_index (sealNames script_globals) (num_rem (num_sub n (Num 1)) (Num 20))
        \<and> tone r = js_index (toneNames script_globals) (num_rem (num_sub n (Num 1)) (Num 13)))
   \<and> displayText r = ToString (tone r) @ ToString (seal r)
   \<and> (\<forall>k. kin r = JNumber (Num k) \<longrightarrow>
        1 \<le> k \<and> k \<le> 260
        \<and> seal r = JString (sealNames script_globals ! nat ((k - 1) mod 20))
        \<and> tone r = JString (toneNames script_globals ! nat ((k - 1) mod 13))
        \<and> displayText r = toneNames script_globals ! nat ((k - 1) mod 13)
                         @ sealNames script_globals ! nat ((k - 1) mod 20))
   \<and> (\<forall>r'. fst (calculateKin year' month' day' script_globals) = Inr r'
        \<and> \<not> isHunabKu r' \<and> kin r' = kin r \<longrightarrow> seal r' = seal r \<and> tone r' = tone r)"
proof -
  obtain n where n: "n = while_lt_1 (while_gt_260 (rawKin year month day script_globals))"
    "kin r = JNumber n"
    "seal r = js_index (sealNames script_globals) (num_rem (num_sub n (Num 1)) (Num 20))"
    "tone r = js_index (toneNames script_globals) (num_rem (num_sub n (Num 1)) (Num 13))"
    "displayText r = ToString (tone r) @ ToString (seal r)"
    using normal_result_shape [OF assms] by blast
  have first: "\<exists>n. kin r = JNumber n
        \<and> seal r = js_index (sealNames script_globals) (num_rem (num_sub n (Num 1)) (Num 20))
        \<and> tone r = js_index (toneNames script_globals) (num_rem (num_sub n (Num 1)) (Num 13))"
    using n(2,3,4) by blast
  have numeric: "\<forall>k. kin r = JNumber (Num k) \<longrightarrow>
        1 \<le> k \<and> k \<le> 260
        \<and> seal r = JString (sealNames script_globals ! nat ((k - 1) mod 20))
        \<and> tone r = JString (toneNames script_globals ! nat ((k - 1) mod 13))
        \<and> displayText r = toneNames script_globals ! nat ((k - 1) mod 13)
                         @ sealNames script_globals ! nat ((k - 1) mod 20)"
  proof (intro allI impI)
    fix k
    assume "kin r = JNumber (Num k)"
    with n(2) have nk: "n = Num k" by simp
    with n(1) have range: "1 \<le> k \<and> k \<le> 260"
      using loops_result_range [of "rawKin year month day script_globals" k] by simp
    then have s: "seal r = JString (sealNames script_globals ! nat ((k - 1) mod 20))"
      and t: "tone r = JString (toneNames script_globals ! nat ((k - 1) mod 13))"
      using n(3,4) nk script_name_at [of k] by simp_all
    have "displayText r = toneNames script_globals ! nat ((k - 1) mod 13)
                         @ sealNames script_globals ! nat ((k - 1) mod 20)"
      using n(5) s t by simp
    with range s t show "1 \<le> k \<and> k \<le> 260
        \<and> seal r = JString (sealNames script_globals ! nat ((k - 1) mod 20))
        \<and> tone r = JString (toneNames script_globals ! nat ((k - 1) mod 13))
        \<and> displayText r = toneNames script_globals ! nat ((k - 1) mod 13)
                         @ sealNames script_globals ! nat ((k - 1) mod 20)"
      by blast
  qed
  have same: "\<forall>r'. fst (calculateKin year' month' day' script_globals) = Inr r'
        \<and> \<not> isHunabKu r' \<and> kin r' = kin r \<longrightarrow> seal r' = seal r \<and> tone r' = tone r"
  proof (intro allI impI)
    fix r'
    assume a: "fst (calculateKin year' month' day' script_globals) = Inr r'
        \<and> \<not> isHunabKu r' \<and> kin r' = kin r"
    then obtain n' where n': "kin r' = JNumber n'"
      "seal r' = js_index (sealNames script_globals) (num_rem (num_sub n' (Num 1)) (Num 20))"
      "tone r' = js_index (toneNames script_globals) (num_rem (num_sub n' (Num 1)) (Num 13))"
      using normal_result_shape [of year' month' day' script_globals r'] by blast
    from a n'(1) n(2) have "n' = n" by simp
    with n'(2,3) n(3,4) show "seal r' = seal r \<and> tone r' = tone r" by simp
  qed
  from first n(5) numeric same show ?thesis by (intro conjI)
qed

theorem seal_and_tone_follow_kin_witness:
  "\<exists>r r'. fst (calculateKin 2026 1 6 script_globals) = Inr r \<and> \<not> isHunabKu r
      \<and> kin r = JNumber (Num 28)
      \<and> seal r = JString (sealNames script_globals ! 7)
      \<and> tone r = JString (toneNames script_globals ! 1)
      \<and> displayText r = toneNames script_globals ! 1 @ sealNames script_globals ! 7
      \<and> fst (calculateKin 2021 1 11 script_globals) = Inr r' \<and> \<not> isHunabKu r'
      \<and> kin r' = kin r \<and> seal r' = seal r \<and> tone r' = tone r"
proof -
  obtain r where r: "fst (calculateKin 2026 1 6 script_globals) = Inr r"
    "\<not> isHunabKu r" "kin r = JNumber (Num 28)"
    using script_2026_1_6 by simp
  obtain r' where r': "fst (calculateKin 2021 1 11 script_globals) = Inr r'"
    "\<not> isHunabKu r'" "kin r' = JNumber (Num 28)"
    using script_2021_1_11 by simp
  note inst = seal_and_tone_follow_kin
    [OF r(1,2), where year' = 2021 and month' = 1 and day' = 11]
  have a: "seal r = JString (sealNames script_globals ! 7)
      \<and> tone r = JString (toneNames script_globals ! 1)
      \<and> displayText r = toneNames script_globals ! 1 @ sealNames script_globals ! 7"
    using inst [THEN conjunct2, THEN conjunct2, THEN conjunct1, rule_format, OF r(3)]
    by simp
  have b: "seal r' = seal r \<and> tone r' = tone r"
    using inst [THEN conjunct2, THEN conjunct2, THEN conjunct2, rule_format, of r']
      r' r(3) by simp
  show ?thesis using r r' a b by auto
qed

text \<open>
  Claim C6. \<open>calculateKin(2026, 1, 6)\<close> returns a normal result. The year constant
  is 22, the month constant 0, and 2026 is not a leap year, so the raw sum is
  22 + 0 + 6 = 28 and the kin is 28. The seal index is 7 (seal number 8), which names
  the seal U+9EC3 U+661F U+661F; the tone index is 1, which names the tone
  U+6708 U+4EAE U+7684; the display text is the tone followed by the seal.
\<close>

theorem kin_of_2026_01_06:
  "yearConstants script_globals 2026 = Some 22
   \<and> monthConstants script_globals 1 = Some 0
   \<and> \<not> isLeapYear 2026
   \<and> rawKin 2026 1 6 script_globals = Num (22 + 0 + 6)
   \<and> fst (calculateKin 2026 1 6 script_globals) =
       Inr \<lparr>kin = JNumber (Num 28), seal = JString [0x9EC3, 0x661F, 0x661F],
            tone = JString [0x6708, 0x4EAE, 0x7684], sealNumber = JNumber (Num 8),
            isHunabKu = False,
            displayText = [0x6708, 0x4EAE, 0x7684, 0x9EC3, 0x661F, 0x661F]\<rparr>
   \<and> sealNames script_globals ! 7 = [0x9EC3, 0x661F, 0x661F]
   \<and> toneNames script_globals ! 1 = [0x6708, 0x4EAE, 0x7684]"
proof -
  have "yearConstants script_globals 2026 = Some 22" by (simp add: script_years)
  moreover have "monthConstants script_globals 1 = Some 0" by (simp add: script_months)
  moreover have "rawKin 2026 1 6 script_globals = Num (22 + 0 + 6)"
    using rawKin_2026_1_6 by simp
  moreover have "fst (calculateKin 2026 1 6 script_globals) =
       Inr \<lparr>kin = JNumber (Num 28), seal = JString [0x9EC3, 0x661F, 0x661F],
            tone = JString [0x6708, 0x4EAE, 0x7684], sealNumber = JNumber (Num 8),
            isHunabKu = False,
            displayText = [0x6708, 0x4EAE, 0x7684, 0x9EC3, 0x661F, 0x661F]\<rparr>"
    using script_2026_1_6 by simp
  moreover have "sealNames script_globals ! 7 = [0x9EC3, 0x661F, 0x661F]"
    by (simp add: script_globals_def)
  moreover have "toneNames script_globals ! 1 = [0x6708, 0x4EAE, 0x7684]"
    by (simp add: script_globals_def)
  ultimately show ?thesis using not_leap_2026 by (intro conjI)
qed

theorem kin_of_2026_01_06_witness:
  "\<exists>r. fst (calculateKin 2026 1 6 script_globals) = Inr r
      \<and> kin r = JNumber (Num 28) \<and> sealNumber r = JNumber (Num (7 + 1))
      \<and> seal r = JString (sealNames script_globals ! 7)
      \<and> tone r = JString (toneNames script_globals ! 1)
      \<and> displayText r = toneNames script_globals ! 1 @ sealNames script_globals ! 7"
  using kin_of_2026_01_06 by simp

text \<open>
  Claim C7. The script's \<open>calculateKin\<close> is deterministic and leaves the tables
  alone: for every input and every state of the tables, the call returns the global
  state it was given, with the month, year, seal and tone tables unchanged, so a second
  call with the same arguments returns the same result as the first.
\<close>

theorem calculateKin_is_pure:
  "snd (calculateKin year month day g) = g
   \<and> monthConstants (snd (calculateKin year month day g)) = monthConstants g
   \<and> yearConstants (snd (calculateKin year month day g)) = yearConstants g
   \<and> sealNames (snd (calculateKin year month day g)) = sealNames g
   \<and> toneNames (snd (calculateKin year month day g)) = toneNames g
   \<and> calculateKin year month day (snd (calculateKin year month day g))
       = calculateKin year month day g"
proof -
  have "snd (calculateKin year month day g) = g"
    by (simp add: calculateKin_def Let_def)
  then show ?thesis by simp
qed

theorem calculateKin_is_pure_witness:
  "snd (calculateKin 2026 1 6 script_globals) = script_globals
   \<and> snd (calculateKin 2024 2 29 script_globals) = script_globals
   \<and> snd (calculateKin 1899 1 1 script_globals) = script_globals
   \<and> fst (calculateKin 2026 1 6 (snd (calculateKin 2026 1 6 script_globals)))
       = fst (calculateKin 2026 1 6 script_globals)
   \<and> fst (calculateKin 1899 1 1 (snd (calculateKin 1899 1 1 script_globals)))
       = fst (calculateKin 1899 1 1 script_globals)"
  using calculateKin_is_pure [of 2026 1 6 script_globals]
    calculateKin_is_pure [of 2024 2 29 script_globals]
    calculateKin_is_pure [of 1899 1 1 script_globals]
  by simp

text \<open>
  Claim C8. Take an input whose day is at most 29 when the month is 2. Execution
  reaches the leap-year guard exactly when neither earlier exit was taken, that is when
  the script returns an object that is not the sentinel, or the cover returns an object
  whose \<open>kin\<close> is not \<open>null\<close>. Then the month being 2 implies that the day is at most
  28, the disjunct \<open>month === 2 && day > 28\<close> is false, the guard holds exactly when
  the year is a leap year and the month is greater than 2, and the value of \<open>kin\<close>
  before the loops is the one obtained with the disjunct removed.
\<close>

theorem february_disjunct_of_leap_guard_is_dead:
  fixes year month day :: int
  assumes "month = 2 \<longrightarrow> day \<le> 29"
  shows
    "((\<exists>r. fst (calculateKin year month day g) = Inr r \<and> \<not> isHunabKu r) \<longrightarrow>
        (month = 2 \<longrightarrow> day \<le> 28)
        \<and> \<not> (month = 2 \<and> day > 28)
        \<and> ((isLeapYear year \<and> (month > 2 \<or> (month = 2 \<and> day > 28)))
             \<longleftrightarrow> (isLeapYear year \<and> month > 2))
        \<and> rawKin year month day g =
            (let kin0 = num_add (num_add (ToNumber (yearConstants g year))
                                         (ToNumber (monthConstants g month))) (Num day)
             in if isLeapYear year \<and> month > 2 then num_add kin0 (Num 1) else kin0))
   \<and> (kin (fst (calculateKin_cover year month day gc)) \<noteq> JNull \<longrightarrow>
        (month = 2 \<longrightarrow> day \<le> 28)
        \<and> \<not> (month = 2 \<and> day > 28)
        \<and> ((isLeapYear_cover year \<and> (month > 2 \<or> (month = 2 \<and> day > 28)))
             \<longleftrightarrow> (isLeapYear_cover year \<and> month > 2))
        \<and> rawKin_cover year month day gc =
            (let kin0 = num_add (num_add (ToNumber (YEAR_CONSTANTS gc year))
                                         (ToNumber (MONTH_CONSTANTS gc month))) (Num day)
             in if isLeapYear_cover year \<and> month > 2 then num_add kin0 (Num 1) else kin0))"
proof (intro conjI impI)
  assume "\<exists>r. fst (calculateKin year month day g) = Inr r \<and> \<not> isHunabKu r"
  then have "\<not> (month = 2 \<and> day = 29)"
    using calculateKin_normal_iff [of year month day g] by blast
  with assms have dead: "\<not> (month = 2 \<and> day > 28)" by auto
  then show "\<not> (month = 2 \<and> day > 28)" .
  from dead show "day \<le> 28" if "month = 2" using that by simp
  from dead show geq: "(isLeapYear year \<and> (month > 2 \<or> (month = 2 \<and> day > 28)))
             \<longleftrightarrow> (isLeapYear year \<and> month > 2)"
    by blast
  show "rawKin year month day g =
            (let kin0 = num_add (num_add (ToNumber (yearConstants g year))
                                         (ToNumber (monthConstants g month))) (Num day)
             in if isLeapYear year \<and> month > 2 then num_add kin0 (Num 1) else kin0)"
    unfolding rawKin_def by (simp only: geq)
next
  assume "kin (fst (calculateKin_cover year month day gc)) \<noteq> JNull"
  then have "\<not> (month = 2 \<and> day = 29)"
    using calculateKin_cover_normal_iff [of year month day gc] by blast
  with assms have dead: "\<not> (month = 2 \<and> day > 28)" by auto
  then show "\<not> (month = 2 \<and> day > 28)" .
  from dead show "day \<le> 28" if "month = 2" using that by simp
  from dead show geq: "(isLeapYear_cover year \<and> (month > 2 \<or> (month = 2 \<and> day > 28)))
             \<longleftrightarrow> (isLeapYear_cover year \<and> month > 2)"
    by blast
  show "rawKin_cover year month day gc =
            (let kin0 = num_add (num_add (ToNumber (YEAR_CONSTANTS gc year))
                                         (ToNumber (MONTH_CONSTANTS gc month))) (Num day)
             in if isLeapYear_cover year \<and> month > 2 then num_add kin0 (Num 1) else kin0)"
    unfolding rawKin_cover_def by (simp only: geq)
qed

theorem february_disjunct_of_leap_guard_is_dead_witness:
  "(28::int) \<le> 29
   \<and> (\<exists>r. fst (calculateKin 2024 2 28 script_globals) = Inr r \<and> \<not> isHunabKu r)
   \<and> kin (fst (calculateKin_cover 2024 2 28 cover_globals)) \<noteq> JNull
   \<and> \<not> ((2::int) = 2 \<and> (28::int) > 28)
   \<and> isLeapYear 2024 \<and> isLeapYear_cover 2024
   \<and> rawKin 2024 2 28 script_globals = Num (72 + 31 + 28)
   \<and> rawKin_cover 2024 2 28 cover_globals = Num (72 + 31 + 28)"
proof -
  have v: "(2::int) = 2 \<longrightarrow> (28::int) \<le> 29" by simp
  have y: "yearConstants script_globals 2024 = Some 72" by (simp add: script_years)
  have y': "YEAR_CONSTANTS cover_globals 2024 = Some 72" by (simp add: cover_years)
  have m: "monthConstants script_globals 2 = Some 31" by (simp add: script_months)
  have m': "MONTH_CONSTANTS cover_globals 2 = Some 31" by (simp add: cover_months)
  have leap: "isLeapYear 2024" "isLeapYear_cover 2024"
    by (simp_all add: isLeapYear_def isLeapYear_cover_def js_rem_def)
  have reach: "\<exists>r. fst (calculateKin 2024 2 28 script_globals) = Inr r \<and> \<not> isHunabKu r"
    using script_year_nonzero [OF y] calculateKin_normal_iff [of 2024 2 28 script_globals]
    by simp
  have reach': "kin (fst (calculateKin_cover 2024 2 28 cover_globals)) \<noteq> JNull"
    using cover_year_nonzero [OF y'] calculateKin_cover_normal_iff [of 2024 2 28 cover_globals]
    by simp
  note inst = february_disjunct_of_leap_guard_is_dead
    [where year = 2024 and month = 2 and day = 28 and g = script_globals and gc = cover_globals,
     OF v]
  have s: "\<not> ((2::int) = 2 \<and> (28::int) > 28)
      \<and> rawKin 2024 2 28 script_globals = Num (72 + 31 + 28)"
    using inst [THEN conjunct1, rule_format, OF reach] by (simp add: y m)
  have c: "rawKin_cover 2024 2 28 cover_globals = Num (72 + 31 + 28)"
    using inst [THEN conjunct2, rule_format, OF reach'] by (simp add: y' m')
  show ?thesis using reach reach' leap s c by simp
qed

lemma script_year_dom: "dom (yearConstants script_globals) = {2014..2030}"
proof (intro set_eqI iffI)
  fix y
  assume "y \<in> dom (yearConstants script_globals)"
  then obtain v where "yearConstants script_globals y = Some v" by blast
  then show "y \<in> {2014..2030}" using script_year_Some [of y v] by simp
next
  fix y :: int
  assume "y \<in> {2014..2030}"
  then show "y \<in> dom (yearConstants script_globals)"
    using shared_year [of y] by auto
qed

lemma cover_year_dom: "dom (YEAR_CONSTANTS cover_globals) = {2014..2035}"
proof (intro set_eqI iffI)
  fix y
  assume "y \<in> dom (YEAR_CONSTANTS cover_globals)"
  then obtain v where "YEAR_CONSTANTS cover_globals y = Some v" by blast
  then show "y \<in> {2014..2035}" using cover_year_Some [of y v] by simp
next
  fix y :: int
  assume "y \<in> {2014..2035}"
  then have "(2014 \<le> y \<and> y \<le> 2030) \<or> (2031 \<le> y \<and> y \<le> 2035)" by auto
  then show "y \<in> dom (YEAR_CONSTANTS cover_globals)"
    using shared_year [of y] extra_year [of y] by auto
qed

lemma year_tables_agree:
  assumes "yearConstants script_globals y = Some v"
  shows "YEAR_CONSTANTS cover_globals y = Some v"
proof -
  have "2014 \<le> y" "y \<le> 2030" using script_year_Some [OF assms] by simp_all
  then show ?thesis using shared_year [of y] assms by auto
qed

text \<open>On a year of the script's table the two copies return the same object.\<close>

lemma copies_agree:
  assumes "2014 \<le> year" and "year \<le> 2030"
  shows "\<exists>r. fst (calculateKin year month day script_globals) = Inr r
     \<and> kin (fst (calculateKin_cover year month day cover_globals)) = kin r
     \<and> seal (fst (calculateKin_cover year month day cover_globals)) = seal r
     \<and> tone (fst (calculateKin_cover year month day cover_globals)) = tone r
     \<and> sealNumber (fst (calculateKin_cover year month day cover_globals)) = sealNumber r
     \<and> isHunabKu (fst (calculateKin_cover year month day cover_globals)) = isHunabKu r
     \<and> displayText (fst (calculateKin_cover year month day cover_globals)) = displayText r"
proof (cases "month = 2 \<and> day = 29")
  case True
  then show ?thesis
    by (simp add: calculateKin_sentinel calculateKin_cover_sentinel)
next
  case False
  obtain yc where yc: "yearConstants script_globals year = Some yc"
    "YEAR_CONSTANTS cover_globals year = Some yc"
    using shared_year [OF assms] by blast
  have nz: "\<not> js_not (yearConstants script_globals year)"
    using yc(1) by (rule script_year_nonzero)
  have nz': "\<not> js_not (YEAR_CONSTANTS cover_globals year)"
    using yc(2) by (rule cover_year_nonzero)
  have raw_eq: "rawKin_cover year month day cover_globals = rawKin year month day script_globals"
    by (rule rawKin_cover_eq) (simp_all add: yc months_agree)
  show ?thesis
  proof (cases "rawKin year month day script_globals")
    case (Num raw)
    have "rawKin_cover year month day cover_globals = Num raw"
      using raw_eq Num by simp
    then show ?thesis
      using calculateKin_numeric [OF False nz Num] calculateKin_cover_numeric [OF False nz']
      by (simp add: names_agree del: js_index.simps)
  next
    case NaN
    have "rawKin_cover year month day cover_globals = NaN"
      using raw_eq NaN by simp
    then show ?thesis
      using calculateKin_NaN [OF False nz NaN] calculateKin_cover_NaN [OF False nz']
      by simp
  qed
qed

lemma extra_year_differs:
  assumes "2031 \<le> year" and "year \<le> 2035" and "(month, day) \<noteq> (2, 29)"
  shows "(\<exists>e. fst (calculateKin year month day script_globals) = Inl e)
     \<and> kin (fst (calculateKin_cover year month day cover_globals)) \<noteq> JNull
     \<and> \<not> isHunabKu (fst (calculateKin_cover year month day cover_globals))
     \<and> (1 \<le> month \<and> month \<le> 12 \<longrightarrow>
          (\<exists>k. kin (fst (calculateKin_cover year month day cover_globals)) = JNumber (Num k)
             \<and> 1 \<le> k \<and> k \<le> 260))"
proof -
  have nf: "\<not> (month = 2 \<and> day = 29)" using assms(3) by simp
  have none: "yearConstants script_globals year = None"
    using assms(1) by (simp add: script_year_None)
  obtain yc where yc: "YEAR_CONSTANTS cover_globals year = Some yc"
    using extra_year [OF assms(1,2)] by blast
  have nz: "\<not> js_not (YEAR_CONSTANTS cover_globals year)"
    using yc by (rule cover_year_nonzero)
  have a: "\<exists>e. fst (calculateKin year month day script_globals) = Inl e"
    using calculateKin_Inl_iff [of year month day script_globals] nf none by simp
  have b: "kin (fst (calculateKin_cover year month day cover_globals)) \<noteq> JNull"
    using calculateKin_cover_normal_iff [of year month day cover_globals] nf nz by simp
  have c: "\<not> isHunabKu (fst (calculateKin_cover year month day cover_globals))"
    using nf by (simp add: calculateKin_cover_def Let_def)
  have d: "1 \<le> month \<and> month \<le> 12 \<longrightarrow>
          (\<exists>k. kin (fst (calculateKin_cover year month day cover_globals)) = JNumber (Num k)
             \<and> 1 \<le> k \<and> k \<le> 260)"
  proof
    assume "1 \<le> month \<and> month \<le> 12"
    then obtain mc where "monthConstants script_globals month = Some mc"
      using script_month_Some [of month] by blast
    then have mc: "MONTH_CONSTANTS cover_globals month = Some mc"
      by (simp only: months_agree)
    show "\<exists>k. kin (fst (calculateKin_cover year month day cover_globals)) = JNumber (Num k)
             \<and> 1 \<le> k \<and> k \<le> 260"
      using cover_kin_of_raw(2) [OF nf yc mc] spec_kin_range by blast
  qed
  from a b c d show ?thesis by (intro conjI)
qed

text \<open>
  Claim C9, as stated, at February 29, 2032. The year 2032 is one of the years that
  only the cover's table lists. The script does not signal an unsupported year there
  and the cover does not return a normal result: both return the sentinel.
\<close>

theorem extra_year_february_29_counterexample:
  "yearConstants script_globals 2032 = None
   \<and> YEAR_CONSTANTS cover_globals 2032 = Some 132
   \<and> fst (calculateKin 2032 2 29 script_globals) =
       Inr \<lparr>kin = JNull, seal = JNull, tone = JNull, sealNumber = JUndefined,
            isHunabKu = True, displayText = ascii ''Hunab Ku''\<rparr>
   \<and> fst (calculateKin_cover 2032 2 29 cover_globals) =
       \<lparr>kin = JNull, seal = JNull, tone = JNull, sealNumber = JUndefined,
        isHunabKu = True, displayText = ascii ''Hunab Ku'',
        sealImagePath = JString (ascii ''./images/hunab-ku-1.png'')\<rparr>"
  by (simp add: script_year_None cover_years calculateKin_sentinel calculateKin_cover_sentinel)

text \<open>
  Claim C9, amended. For every year from 2014 to 2030 and every month and day, the two
  copies of \<open>calculateKin\<close> return the same \<open>kin\<close>, \<open>seal\<close>, \<open>tone\<close>,
  \<open>sealNumber\<close>, \<open>isHunabKu\<close> and \<open>displayText\<close>. The cover's year table extends
  the script's: it agrees with it on 2014 to 2030 and adds exactly 2031 to 2035. For
  those extra years and every date other than February 29 the script throws the
  unsupported-year error while the cover returns a normal result (a numeric kin between
  1 and 260 when the month is from 1 to 12); on February 29 of those years both return
  the sentinel.
\<close>

theorem copies_agree_on_shared_years:
  fixes year month day :: int
  shows
    "(2014 \<le> year \<and> year \<le> 2030 \<longrightarrow>
        (\<exists>r. fst (calculateKin year month day script_globals) = Inr r
           \<and> kin (fst (calculateKin_cover year month day cover_globals)) = kin r
           \<and> seal (fst (calculateKin_cover year month day cover_globals)) = seal r
           \<and> tone (fst (calculateKin_cover year month day cover_globals)) = tone r
           \<and> sealNumber (fst (calculateKin_cover year month day cover_globals)) = sealNumber r
           \<and> isHunabKu (fst (calculateKin_cover year month day cover_globals)) = isHunabKu r
           \<and> displayText (fst (calculateKin_cover year month day cover_globals)) = displayText r))
   \<and> (\<forall>v. yearConstants script_globals year = Some v \<longrightarrow>
           YEAR_CONSTANTS cover_globals year = Some v)
   \<and> dom (yearConstants script_globals) = {2014..2030}
   \<and> dom (YEAR_CONSTANTS cover_globals) = dom (yearConstants script_globals) \<union> {2031..2035}
   \<and> (2031 \<le> year \<and> year \<le> 2035 \<and> (month, day) \<noteq> (2, 29) \<longrightarrow>
        (\<exists>e. fst (calculateKin year month day script_globals) = Inl e)
        \<and> kin (fst (calculateKin_cover year month day cover_globals)) \<noteq> JNull
        \<and> \<not> isHunabKu (fst (calculateKin_cover year month day cover_globals))
        \<and> (1 \<le> month \<and> month \<le> 12 \<longrightarrow>
             (\<exists>k. kin (fst (calculateKin_cover year month day cover_globals)) = JNumber (Num k)
                \<and> 1 \<le> k \<and> k \<le> 260)))
   \<and> (\<exists>r. fst (calculateKin year 2 29 script_globals) = Inr r \<and> isHunabKu r)
   \<and> isHunabKu (fst (calculateKin_cover year 2 29 cover_globals))"
proof -
  have a: "2014 \<le> year \<and> year \<le> 2030 \<longrightarrow>
        (\<exists>r. fst (calculateKin year month day script_globals) = Inr r
           \<and> kin (fst (calculateKin_cover year month day cover_globals)) = kin r
           \<and> seal (fst (calculateKin_cover year month day cover_globals)) = seal r
           \<and> tone (fst (calculateKin_cover year month day cover_globals)) = tone r
           \<and> sealNumber (fst (calculateKin_cover year month day cover_globals)) = sealNumber r
           \<and> isHunabKu (fst (calculateKin_cover year month day cover_globals)) = isHunabKu r
           \<and> displayText (fst (calculateKin_cover year month day cover_globals)) = displayText r)"
    using copies_agree [of year month day] by blast
  have b: "\<forall>v. yearConstants script_globals year = Some v \<longrightarrow>
           YEAR_CONSTANTS cover_globals year = Some v"
    using year_tables_agree by blast
  have c: "dom (YEAR_CONSTANTS cover_globals) = dom (yearConstants script_globals) \<union> {2031..2035}"
    unfolding script_year_dom cover_year_dom by auto
  have d: "2031 \<le> year \<and> year \<le> 2035 \<and> (month, day) \<noteq> (2, 29) \<longrightarrow>
        (\<exists>e. fst (calculateKin year month day script_globals) = Inl e)
        \<and> kin (fst (calculateKin_cover year month day cover_globals)) \<noteq> JNull
        \<and> \<not> isHunabKu (fst (calculateKin_cover year month day cover_globals))
        \<and> (1 \<le> month \<and> month \<le> 12 \<longrightarrow>
             (\<exists>k. kin (fst (calculateKin_cover year month day cover_globals)) = JNumber (Num k)
                \<and> 1 \<le> k \<and> k \<le> 260))"
    using extra_year_differs [of year month day] by blast
  have e: "\<exists>r. fst (calculateKin year 2 29 script_globals) = Inr r \<and> isHunabKu r"
    by (simp add: calculateKin_sentinel)
  have f: "isHunabKu (fst (calculateKin_cover year 2 29 cover_globals))"
    by (simp add: calculateKin_cover_sentinel)
  from a b script_year_dom c d e f show ?thesis by (intro conjI)
qed

theorem copies_agree_on_shared_years_witness:
  "(2014::int) \<le> 2026 \<and> (2026::int) \<le> 2030
   \<and> (\<exists>r. fst (calculateKin 2026 1 6 script_globals) = Inr r
        \<and> kin (fst (calculateKin_cover 2026 1 6 cover_globals)) = kin r
        \<and> seal (fst (calculateKin_cover 2026 1 6 cover_globals)) = seal r
        \<and> tone (fst (calculateKin_cover 2026 1 6 cover_globals)) = tone r
        \<and> isHunabKu (fst (calculateKin_cover 2026 1 6 cover_globals)) = isHunabKu r
        \<and> displayText (fst (calculateKin_cover 2026 1 6 cover_globals)) = displayText r)
   \<and> yearConstants script_globals 2026 = Some 22
   \<and> YEAR_CONSTANTS cover_globals 2026 = Some 22
   \<and> (2031::int) \<le> 2032 \<and> (2032::int) \<le> 2035 \<and> ((3::int), (1::int)) \<noteq> (2, 29)
   \<and> (1::int) \<le> 3 \<and> (3::int) \<le> 12
   \<and> (\<exists>e. fst (calculateKin 2032 3 1 script_globals) = Inl e)
   \<and> \<not> isHunabKu (fst (calculateKin_cover 2032 3 1 cover_globals))
   \<and> (\<exists>k. kin (fst (calculateKin_cover 2032 3 1 cover_globals)) = JNumber (Num k)
        \<and> 1 \<le> k \<and> k \<le> 260)"
proof -
  note shared = copies_agree_on_shared_years [where year = 2026 and month = 1 and day = 6]
  note extra = copies_agree_on_shared_years [where year = 2032 and month = 3 and day = 1]
  have y: "yearConstants script_globals 2026 = Some 22" by (simp add: script_years)
  have a: "\<exists>r. fst (calculateKin 2026 1 6 script_globals) = Inr r
        \<and> kin (fst (calculateKin_cover 2026 1 6 cover_globals)) = kin r
        \<and> seal (fst (calculateKin_cover 2026 1 6 cover_globals)) = seal r
        \<and> tone (fst (calculateKin_cover 2026 1 6 cover_globals)) = tone r
        \<and> isHunabKu (fst (calculateKin_cover 2026 1 6 cover_globals)) = isHunabKu r
        \<and> displayText (fst (calculateKin_cover 2026 1 6 cover_globals)) = displayText r"
    using shared [THEN conjunct1] by auto
  have b: "YEAR_CONSTANTS cover_globals 2026 = Some 22"
    using shared [THEN conjunct2, THEN conjunct1, rule_format, OF y] .
  have c: "(\<exists>e. fst (calculateKin 2032 3 1 script_globals) = Inl e)
      \<and> \<not> isHunabKu (fst (calculateKin_cover 2032 3 1 cover_globals))
      \<and> (\<exists>k. kin (fst (calculateKin_cover 2032 3 1 cover_globals)) = JNumber (Num k)
           \<and> 1 \<le> k \<and> k \<le> 260)"
    using extra [THEN conjunct2, THEN conjunct2, THEN conjunct2, THEN conjunct2, THEN conjunct1]
    by simp
  show ?thesis using y a b c by simp
qed

text \<open>
  What the claim is about: a year constant of zero would be taken for a missing one.
\<close>

lemma zero_constant_reads_as_missing:
  assumes "yearConstants g year = Some 0" and "(month, day) \<noteq> (2, 29)"
  shows "\<exists>e. fst (calculateKin year month day g) = Inl e"
  using assms calculateKin_Inl_iff [of year month day g] by simp

text \<open>
  Claim C10, as stated, at February 29, 2036. The year 2036 has no entry in either year
  table, so the test \<open>!yearConstants[year]\<close> would hold, yet the unsupported-year
  branch does not fire: the February 29 branch comes first and both copies return the
  sentinel.
\<close>

theorem unlisted_year_february_29_counterexample:
  "yearConstants script_globals 2036 = None
   \<and> YEAR_CONSTANTS cover_globals 2036 = None
   \<and> js_not (yearConstants script_globals 2036)
   \<and> js_not (YEAR_CONSTANTS cover_globals 2036)
   \<and> fst (calculateKin 2036 2 29 script_globals) =
       Inr \<lparr>kin = JNull, seal = JNull, tone = JNull, sealNumber = JUndefined,
            isHunabKu = True, displayText = ascii ''Hunab Ku''\<rparr>
   \<and> fst (calculateKin_cover 2036 2 29 cover_globals) =
       \<lparr>kin = JNull, seal = JNull, tone = JNull, sealNumber = JUndefined,
        isHunabKu = True, displayText = ascii ''Hunab Ku'',
        sealImagePath = JString (ascii ''./images/hunab-ku-1.png'')\<rparr>
   \<and> console (snd (calculateKin_cover 2036 2 29 cover_globals)) = console cover_globals"
  by (simp add: script_year_None cover_year_None calculateKin_sentinel
      calculateKin_cover_sentinel)

text \<open>
  Claim C10, amended. Every value of the year table, in the script and in the cover, is
  a nonzero integer between 12 and 237. So the test \<open>!yearConstants[year]\<close> holds
  exactly when the year has no entry in the table. For every date other than
  February 29 the unsupported-year branch fires, that is the script throws and the
  cover returns its unsupported-year object, exactly when the year has no entry; on
  February 29 the sentinel is returned before the test is reached. No listed year is
  reported as unsupported on any date.
\<close>

theorem year_test_is_key_absence:
  fixes year month day yc :: int
  shows
    "(yearConstants script_globals year = Some yc \<longrightarrow> yc \<noteq> 0 \<and> 12 \<le> yc \<and> yc \<le> 237)
   \<and> (YEAR_CONSTANTS cover_globals year = Some yc \<longrightarrow> yc \<noteq> 0 \<and> 12 \<le> yc \<and> yc \<le> 237)
   \<and> (js_not (yearConstants script_globals year)
         \<longleftrightarrow> year \<notin> dom (yearConstants script_globals))
   \<and> (js_not (YEAR_CONSTANTS cover_globals year)
         \<longleftrightarrow> year \<notin> dom (YEAR_CONSTANTS cover_globals))
   \<and> ((\<exists>e. fst (calculateKin year month day script_globals) = Inl e)
         \<longleftrightarrow> (month, day) \<noteq> (2, 29) \<and> year \<notin> dom (yearConstants script_globals))
   \<and> (kin (fst (calculateKin_cover year month day cover_globals)) = JNull
        \<and> \<not> isHunabKu (fst (calculateKin_cover year month day cover_globals))
         \<longleftrightarrow> (month, day) \<noteq> (2, 29) \<and> year \<notin> dom (YEAR_CONSTANTS cover_globals))"
proof -
  have a: "yearConstants script_globals year = Some yc \<longrightarrow> yc \<noteq> 0 \<and> 12 \<le> yc \<and> yc \<le> 237"
    using script_year_Some [of year yc] by auto
  have b: "YEAR_CONSTANTS cover_globals year = Some yc \<longrightarrow> yc \<noteq> 0 \<and> 12 \<le> yc \<and> yc \<le> 237"
    using cover_year_Some [of year yc] by auto
  have c: "js_not (yearConstants script_globals year)
         \<longleftrightarrow> year \<notin> dom (yearConstants script_globals)"
    by (simp add: script_js_not_iff domIff)
  have d: "js_not (YEAR_CONSTANTS cover_globals year)
         \<longleftrightarrow> year \<notin> dom (YEAR_CONSTANTS cover_globals)"
    by (simp add: cover_js_not_iff domIff)
  have e: "(\<exists>e. fst (calculateKin year month day script_globals) = Inl e)
         \<longleftrightarrow> (month, day) \<noteq> (2, 29) \<and> year \<notin> dom (yearConstants script_globals)"
    unfolding calculateKin_Inl_iff c by simp
  have f: "kin (fst (calculateKin_cover year month day cover_globals)) = JNull
        \<and> \<not> isHunabKu (fst (calculateKin_cover year month day cover_globals))
         \<longleftrightarrow> (month, day) \<noteq> (2, 29) \<and> year \<notin> dom (YEAR_CONSTANTS cover_globals)"
    unfolding calculateKin_cover_null_iff d by simp
  from a b c d e f show ?thesis by (intro conjI)
qed

theorem year_test_is_key_absence_witness:
  "yearConstants script_globals 2016 = Some 12
   \<and> YEAR_CONSTANTS cover_globals 2033 = Some 237
   \<and> (12::int) \<noteq> 0 \<and> (237::int) \<noteq> 0
   \<and> \<not> js_not (yearConstants script_globals 2016)
   \<and> \<not> js_not (YEAR_CONSTANTS cover_globals 2033)
   \<and> 2016 \<in> dom (yearConstants script_globals)
   \<and> 2033 \<in> dom (YEAR_CONSTANTS cover_globals)
   \<and> js_not (yearConstants script_globals 1899)
   \<and> js_not (YEAR_CONSTANTS cover_globals 1899)
   \<and> (\<exists>e. fst (calculateKin 1899 1 1 script_globals) = Inl e)
   \<and> kin (fst (calculateKin_cover 1899 1 1 cover_globals)) = JNull
   \<and> \<not> isHunabKu (fst (calculateKin_cover 1899 1 1 cover_globals))
   \<and> (\<nexists>e. fst (calculateKin 2016 1 1 script_globals) = Inl e)
   \<and> \<not> (kin (fst (calculateKin_cover 2033 1 1 cover_globals)) = JNull
          \<and> \<not> isHunabKu (fst (calculateKin_cover 2033 1 1 cover_globals)))"
proof -
  have y: "yearConstants script_globals 2016 = Some 12" by (simp add: script_years)
  have y': "YEAR_CONSTANTS cover_globals 2033 = Some 237" by (simp add: cover_years)
  have n: "1899 \<notin> dom (yearConstants script_globals)"
    by (simp add: domIff script_year_None)
  have n': "1899 \<notin> dom (YEAR_CONSTANTS cover_globals)"
    by (simp add: domIff cover_year_None)
  have i: "2016 \<in> dom (yearConstants script_globals)" using y by blast
  have i': "2033 \<in> dom (YEAR_CONSTANTS cover_globals)" using y' by blast
  note s = year_test_is_key_absence [where year = 2016 and yc = 12 and month = 1 and day = 1]
  note c = year_test_is_key_absence [where year = 2033 and yc = 237 and month = 1 and day = 1]
  note u = year_test_is_key_absence [where year = 1899 and yc = 0 and month = 1 and day = 1]
  have s': "\<not> js_not (yearConstants script_globals 2016)
      \<and> (\<nexists>e. fst (calculateKin 2016 1 1 script_globals) = Inl e)"
    using s i by simp
  have c': "\<not> js_not (YEAR_CONSTANTS cover_globals 2033)
      \<and> \<not> (kin (fst (calculateKin_cover 2033 1 1 cover_globals)) = JNull
             \<and> \<not> isHunabKu (fst (calculateKin_cover 2033 1 1 cover_globals)))"
    using c i' by simp
  have u': "js_not (yearConstants script_globals 1899)
      \<and> js_not (YEAR_CONSTANTS cover_globals 1899)
      \<and> (\<exists>e. fst (calculateKin 1899 1 1 script_globals) = Inl e)
      \<and> kin (fst (calculateKin_cover 1899 1 1 cover_globals)) = JNull
      \<and> \<not> isHunabKu (fst (calculateKin_cover 1899 1 1 cover_globals))"
    using u n n' by simp
  show ?thesis using y y' i i' s' c' u' by simp
qed

end
